theory Spec2Isabelle
  imports Complex_Main "HOL-Library.Sublist" "HOL-Library.Multiset"
begin

section \<open>Data model (src/types/index.ts)\<close>

text \<open>
  The TypeScript interfaces become records, the string-literal unions become datatypes and
  an optional field \<open>f?: T\<close> becomes \<open>T option\<close> (\<open>None\<close> is JavaScript's \<open>undefined\<close>).
  Field names are the source's; where two interfaces share a field name the later record
  carries a suffix (\<open>area_r\<close> of a restaurant, \<open>partySize_d\<close> of a booking draft, ...), as
  does a field whose name is a keyword of the prover (\<open>notes_d\<close>, \<open>text_m\<close>; the \<open>context\<close>
  of a result is \<open>newContext\<close>, the name of the variable it is returned from).

  JavaScript numbers are IEEE doubles. Scores and ratings are modelled as exact rationals
  and counters and party sizes as integers, so \<open>NaN\<close>, infinities and rounding are outside
  the model. Strings are \<open>char list\<close>; \<open>toLowerCase\<close> is modelled on ASCII letters.
\<close>

datatype Price = Low | Mid | High

datatype Budget = Cheap | BMid | BHigh

datatype MealTime = Breakfast | Lunch | Dinner | Coffee | Drinks | LateNight

datatype Vibe = Romantic | Lively | Quiet | Outdoor | Family | Business

datatype QuestionType = QArea | QMealTime | QPartySize | QBudget | QCuisine | QVibe | QDietary

datatype ConversationState =
  WELCOME | DISCOVERY | RECOMMEND | BOOKING_COLLECT | BOOKING_CONFIRM | REFINE

record Restaurant =
  id_r :: string
  name :: string
  area_r :: string
  city :: string
  cuisines :: "string list"
  price :: Price
  vibe_r :: "string list"
  dietary_r :: "string list"
  rating :: rat
  highlights :: "string list"
  bookingAvailable :: bool
  discountCode :: "string option"

record Avoid =
  cuisines_a :: "string list option"
  tags :: "string list option"

record Slots =
  mealTime :: "MealTime option"
  area :: "string option"
  partySize :: "int option"
  budget :: "Budget option"
  cravingCuisines :: "string list option"
  vibe :: "Vibe option"
  dietary :: "string list option"
  avoid :: "Avoid option"

record Profile =
  cuisinesLiked :: "(string \<times> int) list"
  vibePrefs :: "(string \<times> int) list"
  budgetDefault :: "Budget option"
  dietary_p :: "string list option"
  lastArea :: "string option"

definition emptySlots :: Slots where
  "emptySlots = \<lparr>mealTime = None, area = None, partySize = None, budget = None,
     cravingCuisines = None, vibe = None, dietary = None, avoid = None\<rparr>"

definition emptyProfile :: Profile where
  "emptyProfile = \<lparr>cuisinesLiked = [], vibePrefs = [], budgetDefault = None,
     dietary_p = None, lastArea = None\<rparr>"

subsection \<open>JavaScript truthiness\<close>

text \<open>
  \<open>!!x\<close> on an optional string is false for \<open>undefined\<close> and for the empty string; on an
  optional number it is false for \<open>undefined\<close> and for \<open>0\<close>. Arrays and the non-empty
  enum literals are always truthy when present.
\<close>

fun truthyStr :: "string option \<Rightarrow> bool" where
  "truthyStr None = False"
| "truthyStr (Some s) = (s \<noteq> [])"

fun truthyNum :: "int option \<Rightarrow> bool" where
  "truthyNum None = False"
| "truthyNum (Some n) = (n \<noteq> 0)"

section \<open>Discovery policy (conversation module, src/unnamed/part\_004)\<close>

record Question =
  question :: string
  qtype :: QuestionType

definition canRecommend :: "Slots \<Rightarrow> Profile \<Rightarrow> bool" where
  "canRecommend slots profile =
     (let hasArea = truthyStr (area slots);
          hasPartySize = truthyNum (partySize slots);
          hasBudget = (budget slots \<noteq> None);
          hasCuisineOrVibeOrMealTime =
            ((case cravingCuisines slots of None \<Rightarrow> False | Some cs \<Rightarrow> length cs > 0)
             \<or> vibe slots \<noteq> None \<or> mealTime slots \<noteq> None)
      in hasArea \<and> hasPartySize \<and> hasBudget \<and> hasCuisineOrVibeOrMealTime)"

definition getNextDiscoveryQuestion :: "Slots \<Rightarrow> Profile \<Rightarrow> Question" where
  "getNextDiscoveryQuestion slots profile =
     (if \<not> truthyStr (area slots) then
        \<lparr>question = ''What area or neighborhood are you thinking? I can help you find great spots in different locations.'',
         qtype = QArea\<rparr>
      else if mealTime slots = None then
        \<lparr>question = ''What meal time are you planning for? Options: breakfast, lunch, dinner, coffee, drinks, or late-night.'',
         qtype = QMealTime\<rparr>
      else if \<not> truthyNum (partySize slots) then
        \<lparr>question = ''How many people will be joining you? Just let me know the number.'',
         qtype = QPartySize\<rparr>
      else if budget slots = None then
        \<lparr>question = ''What's your budget preference? You can choose: cheap, mid, or high. I'll find the perfect match for you!'',
         qtype = QBudget\<rparr>
      else if cravingCuisines slots = None \<and> vibe slots = None then
        \<lparr>question = ''What type of cuisine are you in the mood for, or what kind of atmosphere are you looking for? I'm here to help you find something perfect!'',
         qtype = QCuisine\<rparr>
      else if dietary slots = None then
        \<lparr>question = ''Do you have any dietary requirements or preferences? Just let me know if you have any restrictions or preferences.'',
         qtype = QDietary\<rparr>
      else \<lparr>question = [], qtype = QCuisine\<rparr>)"

text \<open>
  The notion of a missing slot used by the priority-order property: the slot a question type
  asks for is missing when JavaScript's \<open>!\<close> holds of it. The fifth position asks for
  cuisine or vibe and is missing when both are absent; no question of type vibe exists.
\<close>

fun slotMissing :: "QuestionType \<Rightarrow> Slots \<Rightarrow> bool" where
  "slotMissing QArea s = (\<not> truthyStr (area s))"
| "slotMissing QMealTime s = (mealTime s = None)"
| "slotMissing QPartySize s = (\<not> truthyNum (partySize s))"
| "slotMissing QBudget s = (budget s = None)"
| "slotMissing QCuisine s = (cravingCuisines s = None \<and> vibe s = None)"
| "slotMissing QVibe s = False"
| "slotMissing QDietary s = (dietary s = None)"

definition priorityOrder :: "QuestionType list" where
  "priorityOrder = [QArea, QMealTime, QPartySize, QBudget, QCuisine, QDietary]"

section \<open>String helpers (JavaScript built-ins)\<close>

text \<open>
  \<open>s.includes(t)\<close> is contiguous containment, \<open>toLowerCase\<close> maps ASCII capitals to
  small letters, \<open>xs.join(sep)\<close> concatenates with a separator.
\<close>

definition lowerChar :: "char \<Rightarrow> char" where
  "lowerChar c =
     (let n = (of_char c :: nat) in if 65 \<le> n \<and> n \<le> 90 then char_of (n + 32) else c)"

definition toLowerCase :: "string \<Rightarrow> string" where
  "toLowerCase s = map lowerChar s"

fun includes_str :: "string \<Rightarrow> string \<Rightarrow> bool" where
  "includes_str [] t = (t = [])"
| "includes_str (c # cs) t = (prefix t (c # cs) \<or> includes_str cs t)"

fun join :: "string \<Rightarrow> string list \<Rightarrow> string" where
  "join sep [] = []"
| "join sep [x] = x"
| "join sep (x # y # ys) = x @ sep @ join sep (y # ys)"

text \<open>
  Rendering of numbers in template strings. Integers are printed in decimal; a rational
  is printed with its decimal expansion, cut after 17 fractional digits (a double prints
  at most that many).
\<close>

definition digitChar :: "nat \<Rightarrow> char" where
  "digitChar d = char_of (48 + d)"

fun showNatFuel :: "nat \<Rightarrow> nat \<Rightarrow> string" where
  "showNatFuel 0 n = []"
| "showNatFuel (Suc k) n =
     (if n < 10 then [digitChar n] else showNatFuel k (n div 10) @ [digitChar (n mod 10)])"

definition showNat :: "nat \<Rightarrow> string" where
  "showNat n = showNatFuel (Suc n) n"

definition showInt :: "int \<Rightarrow> string" where
  "showInt i = (if i < 0 then ''-'' @ showNat (nat (- i)) else showNat (nat i))"

fun fracDigits :: "nat \<Rightarrow> rat \<Rightarrow> string" where
  "fracDigits 0 f = []"
| "fracDigits (Suc k) f =
     (if f = 0 then []
      else (let d = nat \<lfloor>f * 10\<rfloor> in digitChar d # fracDigits k (f * 10 - of_nat d)))"

definition showRat :: "rat \<Rightarrow> string" where
  "showRat q =
     (let a = \<bar>q\<bar>; w = nat \<lfloor>a\<rfloor>; f = a - of_nat w
      in (if q < 0 then ''-'' else []) @ showNat w
         @ (if f = 0 then [] else ''.'' @ fracDigits 17 f))"

section \<open>Recommendation engine, Slots flow (src/lib/recommender.ts)\<close>

text \<open>
  The catalog constant \<open>RESTAURANTS\<close> is data of the module \<open>restaurants\<close>. The functions
  are verified for an arbitrary catalog: every function that reads the constant takes the
  catalog as its first argument.

  \<open>Array.prototype.sort\<close> with the comparator \<open>(a, b) => b.score - a.score\<close> is a stable
  sort by descending score; it is modelled by the stable insertion sort \<open>sort_key\<close> on the
  negated key.
\<close>

record Scored =
  restaurant_s :: Restaurant
  score :: rat

record RestaurantRecommendation =
  restaurant :: Restaurant
  reasons :: "string list"

record Recommendation =
  topPick :: RestaurantRecommendation
  alternatives :: "RestaurantRecommendation list"

definition mapBudgetToPrice :: "Budget \<Rightarrow> Price" where
  "mapBudgetToPrice b = (case b of Cheap \<Rightarrow> Low | BMid \<Rightarrow> Mid | BHigh \<Rightarrow> High)"

definition budgetName :: "Budget \<Rightarrow> string" where
  "budgetName b = (case b of Cheap \<Rightarrow> ''cheap'' | BMid \<Rightarrow> ''mid'' | BHigh \<Rightarrow> ''high'')"

definition vibeName :: "Vibe \<Rightarrow> string" where
  "vibeName v = (case v of Romantic \<Rightarrow> ''romantic'' | Lively \<Rightarrow> ''lively'' | Quiet \<Rightarrow> ''quiet''
     | Outdoor \<Rightarrow> ''outdoor'' | Family \<Rightarrow> ''family'' | Business \<Rightarrow> ''business'')"

definition vibeMap :: "Vibe \<Rightarrow> string list" where
  "vibeMap v = (case v of
       Romantic \<Rightarrow> [''romantic'', ''intimate'', ''elegant'']
     | Lively \<Rightarrow> [''lively'', ''casual'', ''fun'']
     | Quiet \<Rightarrow> [''quiet'', ''peaceful'', ''calm'']
     | Outdoor \<Rightarrow> [''outdoor'', ''patio'', ''garden'']
     | Family \<Rightarrow> [''family-friendly'', ''family'']
     | Business \<Rightarrow> [''business'', ''professional'', ''upscale''])"

definition areaMatches :: "string \<Rightarrow> Restaurant \<Rightarrow> bool" where
  "areaMatches a r =
     (includes_str (toLowerCase (area_r r)) (toLowerCase a)
      \<or> includes_str (toLowerCase a) (toLowerCase (area_r r)))"

definition filterRestaurants :: "Restaurant list \<Rightarrow> Slots \<Rightarrow> Profile \<Rightarrow> Restaurant list" where
  "filterRestaurants RESTAURANTS slots profile =
     (let filtered = RESTAURANTS;
          filtered = (case area slots of
              Some a \<Rightarrow> if a \<noteq> [] then filter (areaMatches a) filtered else filtered
            | None \<Rightarrow> filtered);
          filtered = (case budget slots of
              Some b \<Rightarrow> filter (\<lambda>r. price r = mapBudgetToPrice b) filtered
            | None \<Rightarrow> filtered);
          filtered = (case dietary slots of
              Some ds \<Rightarrow>
                if length ds > 0 then
                  filter (\<lambda>r. list_ex (\<lambda>req.
                    list_ex (\<lambda>d. includes_str (toLowerCase d) (toLowerCase req)) (dietary_r r)) ds)
                    filtered
                else filtered
            | None \<Rightarrow> filtered);
          filtered = (case avoid slots of
              Some av \<Rightarrow> (case cuisines_a av of
                  Some acs \<Rightarrow>
                    if length acs > 0 then
                      filter (\<lambda>r. \<not> list_ex (\<lambda>avoidCuisine.
                        list_ex (\<lambda>c. includes_str (toLowerCase c) (toLowerCase avoidCuisine))
                          (cuisines r)) acs) filtered
                    else filtered
                | None \<Rightarrow> filtered)
            | None \<Rightarrow> filtered);
          filtered = (case avoid slots of
              Some av \<Rightarrow> (case tags av of
                  Some ats \<Rightarrow>
                    if length ats > 0 then
                      filter (\<lambda>r. \<not> list_ex (\<lambda>avoidTag.
                        list_ex (\<lambda>v. includes_str (toLowerCase v) (toLowerCase avoidTag)) (vibe_r r)
                        \<or> list_ex (\<lambda>h. includes_str (toLowerCase h) (toLowerCase avoidTag))
                             (highlights r)) ats) filtered
                    else filtered
                | None \<Rightarrow> filtered)
            | None \<Rightarrow> filtered)
      in filtered)"

definition cuisineMatch :: "Restaurant \<Rightarrow> string \<Rightarrow> bool" where
  "cuisineMatch rst c =
     list_ex (\<lambda>rc. includes_str (toLowerCase rc) (toLowerCase c)
                  \<or> includes_str (toLowerCase c) (toLowerCase rc)) (cuisines rst)"

definition vibeMatch :: "Restaurant \<Rightarrow> Vibe \<Rightarrow> bool" where
  "vibeMatch rst v =
     list_ex (\<lambda>t. list_ex (\<lambda>m. includes_str (toLowerCase t) (toLowerCase m)) (vibeMap v))
       (vibe_r rst)"

definition dietaryMatch :: "Restaurant \<Rightarrow> string \<Rightarrow> bool" where
  "dietaryMatch rst d =
     list_ex (\<lambda>rd. includes_str (toLowerCase rd) (toLowerCase d)) (dietary_r rst)"

definition likeCount :: "(string \<times> int) list \<Rightarrow> string \<Rightarrow> int" where
  \<comment> \<open>\<open>record[key] || 0\<close>\<close>
  "likeCount rec k = (case map_of rec k of None \<Rightarrow> 0 | Some n \<Rightarrow> n)"

definition scoreRestaurant :: "Restaurant \<Rightarrow> Slots \<Rightarrow> Profile \<Rightarrow> rat" where
  "scoreRestaurant rst slots profile =
     (let score = (0::rat);
          score = (case cravingCuisines slots of
              Some cs \<Rightarrow>
                if length cs > 0 then
                  (let cuisineMatches = filter (cuisineMatch rst) cs
                   in score + of_nat (length cuisineMatches) * 3)
                else score
            | None \<Rightarrow> score);
          score = (case vibe slots of
              Some v \<Rightarrow> if vibeMatch rst v then score + 2 else score
            | None \<Rightarrow> score);
          score = (case budget slots of
              Some b \<Rightarrow> if price rst = mapBudgetToPrice b then score + 1 else score
            | None \<Rightarrow> score);
          score = (case dietary slots of
              Some ds \<Rightarrow>
                if length ds > 0 then
                  (let dietaryMatches = filter (dietaryMatch rst) ds
                   in score + of_nat (length dietaryMatches))
                else score
            | None \<Rightarrow> score);
          score = (case cravingCuisines slots of
              Some cs \<Rightarrow>
                foldl (\<lambda>acc cuisine. acc + of_int (likeCount (cuisinesLiked profile) cuisine) * (1/2))
                  score cs
            | None \<Rightarrow> score);
          score = (case vibe slots of
              Some v \<Rightarrow> score + of_int (likeCount (vibePrefs profile) (vibeName v)) * (1/2)
            | None \<Rightarrow> score);
          score = score + rating rst * (1/2)
      in score)"

definition sortByScoreDesc :: "Scored list \<Rightarrow> Scored list" where
  "sortByScoreDesc xs = sort_key (\<lambda>x. - score x) xs"

definition diversifyRecommendations :: "Scored list \<Rightarrow> string list option \<Rightarrow> Scored list" where
  "diversifyRecommendations scored previousTopPickIds =
     (case previousTopPickIds of
        None \<Rightarrow> scored
      | Some prev \<Rightarrow>
          if length prev = 0 then scored
          else
            (let diversified =
                   map (\<lambda>item. if id_r (restaurant_s item) \<in> set prev
                                then item\<lparr>score := score item * (3/10)\<rparr> else item) scored
             in sortByScoreDesc diversified))"

definition generateReasons :: "Restaurant \<Rightarrow> Slots \<Rightarrow> Profile \<Rightarrow> string list" where
  "generateReasons rst slots profile =
     (let reasons = [];
          reasons = (case cravingCuisines slots of
              Some cs \<Rightarrow>
                if length cs > 0 then
                  (let matches = filter (cuisineMatch rst) cs
                   in if length matches > 0
                      then reasons @ [''great '' @ join '' and '' matches @ '' cuisine'']
                      else reasons)
                else reasons
            | None \<Rightarrow> reasons);
          reasons = (case vibe slots of
              Some v \<Rightarrow> if vibeMatch rst v
                        then reasons @ [''perfect '' @ vibeName v @ '' vibe''] else reasons
            | None \<Rightarrow> reasons);
          reasons = (case budget slots of
              Some b \<Rightarrow> if price rst = mapBudgetToPrice b
                        then reasons @ [''matches your '' @ budgetName b @ '' budget''] else reasons
            | None \<Rightarrow> reasons);
          reasons = (if rating rst \<ge> 9/2
                     then reasons @ [''highly rated ('' @ showRat (rating rst) @ '' stars)'']
                     else reasons);
          reasons = (if length (highlights rst) > 0
                     then reasons @ [hd (highlights rst)] else reasons)
      in take 3 reasons)"

definition mkScored :: "Slots \<Rightarrow> Profile \<Rightarrow> Restaurant \<Rightarrow> Scored" where
  "mkScored slots profile r = \<lparr>restaurant_s = r, score = scoreRestaurant r slots profile\<rparr>"

definition mkRecommendation :: "Slots \<Rightarrow> Profile \<Rightarrow> Scored \<Rightarrow> RestaurantRecommendation" where
  "mkRecommendation slots profile it =
     \<lparr>restaurant = restaurant_s it, reasons = generateReasons (restaurant_s it) slots profile\<rparr>"

text \<open>
  \<open>recommendRestaurants\<close> reads \<open>allScored[0].restaurant\<close>; on an empty catalog that read
  throws a TypeError, which is the result \<open>None\<close>.
\<close>

definition recommendRestaurants ::
  "Restaurant list \<Rightarrow> Slots \<Rightarrow> Profile \<Rightarrow> string list option \<Rightarrow> Recommendation option" where
  "recommendRestaurants RESTAURANTS slots profile previousTopPickIds =
     (let filtered = filterRestaurants RESTAURANTS slots profile in
      if length filtered = 0 then
        (let allScored = sortByScoreDesc (map (mkScored slots profile) RESTAURANTS) in
         case allScored of
           [] \<Rightarrow> None
         | topItem # _ \<Rightarrow> Some \<lparr>topPick = mkRecommendation slots profile topItem, alternatives = []\<rparr>)
      else
        (let scored = sortByScoreDesc (map (mkScored slots profile) filtered);
             diversified = diversifyRecommendations scored previousTopPickIds
         in case diversified of
              [] \<Rightarrow> None
            | topItem # rest \<Rightarrow>
                Some \<lparr>topPick = mkRecommendation slots profile topItem,
                      alternatives = map (mkRecommendation slots profile) (take 2 rest)\<rparr>))"

section \<open>Recommendation engine, ActiveRequest flow (src/unnamed/part\_004, first module)\<close>

datatype BudgetRange = R1 | R2 | R3 | R4

record BudgetChoice =
  range :: BudgetRange
  label :: string

record ActiveRequest =
  area_q :: "string option"
  cuisine_q :: "string option"
  budget_q :: "BudgetChoice option"
  partySize_q :: "int option"
  date_q :: "string option"
  time_q :: "string option"
  notes_q :: "string option"

record TopRestaurants =
  top_t :: "Restaurant option"
  alternatives_t :: "Restaurant list"

definition budgetMap :: "BudgetRange \<Rightarrow> Price" where
  "budgetMap r = (case r of R1 \<Rightarrow> Low | R2 \<Rightarrow> Mid | R3 \<Rightarrow> High | R4 \<Rightarrow> High)"

definition priceMap :: "Price \<Rightarrow> int" where
  "priceMap p = (case p of Low \<Rightarrow> 1 | Mid \<Rightarrow> 2 | High \<Rightarrow> 3)"

definition noteTags :: "string list" where
  "noteTags = [''romantic'', ''lively'', ''quiet'', ''family'', ''rooftop'', ''view'']"

definition scoreActive :: "ActiveRequest \<Rightarrow> Restaurant \<Rightarrow> rat" where
  "scoreActive activeRequest rst =
     (let score = (0::rat);
          score = (case cuisine_q activeRequest of
              Some c \<Rightarrow>
                if c \<noteq> [] then
                  (let cuisineLower = toLowerCase c;
                       hasMatch = list_ex (\<lambda>rc. toLowerCase rc = cuisineLower
                                     \<or> includes_str (toLowerCase rc) cuisineLower
                                     \<or> includes_str cuisineLower (toLowerCase rc)) (cuisines rst)
                   in if hasMatch then score + 10 else score)
                else score
            | None \<Rightarrow> score);
          score = (case budget_q activeRequest of
              Some b \<Rightarrow>
                (let targetPrice = budgetMap (range b);
                     restaurantPriceNum = priceMap (price rst);
                     targetPriceNum = priceMap targetPrice
                 in if price rst = targetPrice then score + 5
                    else if \<bar>restaurantPriceNum - targetPriceNum\<bar> = 1 then score + 2
                    else score)
            | None \<Rightarrow> score);
          score = (case notes_q activeRequest of
              Some n \<Rightarrow>
                if n \<noteq> [] then
                  (let notesLower = toLowerCase n
                   in foldl (\<lambda>acc tag.
                        if includes_str notesLower tag then
                          (let hasMatch =
                                 (list_ex (\<lambda>v. includes_str (toLowerCase v) tag) (vibe_r rst)
                                  \<or> list_ex (\<lambda>h. includes_str (toLowerCase h) tag) (highlights rst))
                           in if hasMatch then acc + 3 else acc)
                        else acc) score noteTags)
                else score
            | None \<Rightarrow> score);
          score = score + rating rst * (1/2)
      in score)"

definition filterByArea :: "Restaurant list \<Rightarrow> ActiveRequest \<Rightarrow> Restaurant list" where
  "filterByArea RESTAURANTS activeRequest =
     filter (\<lambda>r. case area_q activeRequest of
                    None \<Rightarrow> False
                  | Some a \<Rightarrow> if a = [] then False else areaMatches a r) RESTAURANTS"

text \<open>
  In the fallback branch \<open>top\<close> is \<open>filtered[0]\<close>, which is \<open>undefined\<close> (here \<open>None\<close>) on an
  empty catalog; nothing throws.
\<close>

definition getTopRestaurants :: "Restaurant list \<Rightarrow> ActiveRequest \<Rightarrow> TopRestaurants" where
  "getTopRestaurants RESTAURANTS activeRequest =
     (let filtered = filterByArea RESTAURANTS activeRequest
      in if length filtered = 0 then
           (let filtered = take 3 (sort_key (\<lambda>r. - rating r) RESTAURANTS)
            in \<lparr>top_t = (case filtered of [] \<Rightarrow> None | r # _ \<Rightarrow> Some r),
                alternatives_t = take 2 (drop 1 filtered)\<rparr>)
         else
           (let scored = sortByScoreDesc
                  (map (\<lambda>r. \<lparr>restaurant_s = r, score = scoreActive activeRequest r\<rparr>) filtered)
            in \<lparr>top_t = (case scored of [] \<Rightarrow> None | s # _ \<Rightarrow> Some (restaurant_s s)),
                alternatives_t = map restaurant_s (take 2 (drop 1 scored))\<rparr>))"

section \<open>Command parser (src/lib/parser.ts)\<close>

text \<open>
  \<open>parseUserMessage\<close> returns an intent, an option number and slot updates. The dialogue
  controller reads only the intent and the option number, so the slot updates (and with them
  the lists of known areas and cuisines) are left out. Whitespace (\<open>trim\<close>, the class \<open>\s\<close>)
  is ASCII whitespace.
\<close>

datatype Intent =
  SelectOption | BookOption | More | Reject | Confirm | Change | Reset | ProfileIntent | Unknown

record Parsed =
  intent :: Intent
  optionNumber :: "nat option"

definition isSpace :: "char \<Rightarrow> bool" where
  "isSpace c = (let n = (of_char c :: nat) in (9 \<le> n \<and> n \<le> 13) \<or> n = 32)"

definition isDigit :: "char \<Rightarrow> bool" where
  "isDigit c = (let n = (of_char c :: nat) in 48 \<le> n \<and> n \<le> 57)"

definition isWordChar :: "char \<Rightarrow> bool" where
  "isWordChar c =
     (let n = (of_char c :: nat)
      in (48 \<le> n \<and> n \<le> 57) \<or> (65 \<le> n \<and> n \<le> 90) \<or> (97 \<le> n \<and> n \<le> 122) \<or> n = 95)"

definition trim :: "string \<Rightarrow> string" where
  "trim s = rev (dropWhile isSpace (rev (dropWhile isSpace s)))"

definition digitVal :: "char \<Rightarrow> nat" where
  "digitVal c = of_char c - 48"

definition parseDigits :: "string \<Rightarrow> nat" where
  \<comment> \<open>\<open>parseInt\<close> on a string of decimal digits\<close>
  "parseDigits ds = foldl (\<lambda>acc c. acc * 10 + digitVal c) 0 ds"

definition isCommand :: "string \<Rightarrow> string \<Rightarrow> bool" where
  \<comment> \<open>\<open>lower === cmd || lower.startsWith(cmd + " ")\<close>\<close>
  "isCommand cmd lower = (lower = cmd \<or> prefix (cmd @ '' '') lower)"

definition bookMatch :: "string \<Rightarrow> nat option" where
  \<comment> \<open>the regular expression \<open>^book\s+([123])$\<close>\<close>
  "bookMatch lower =
     (if prefix ''book'' lower then
        (let rest = drop 4 lower
         in if length rest \<ge> 2 \<and> list_all isSpace (butlast rest)
               \<and> last rest \<in> set ''123''
            then Some (digitVal (last rest)) else None)
      else None)"

definition optionMatch :: "string \<Rightarrow> nat option" where
  \<comment> \<open>the regular expression \<open>^([123])$\<close>\<close>
  "optionMatch lower =
     (case lower of [c] \<Rightarrow> if c \<in> set ''123'' then Some (digitVal c) else None | _ \<Rightarrow> None)"

definition rejectPatterns :: "string list" where
  "rejectPatterns =
     [''no'', ''not'', ''don't'', ''dont'', ''wrong'', ''not that'', ''too'', ''reject'', ''skip'']"

definition parseKeywords :: "string \<Rightarrow> Parsed" where
  \<comment> \<open>the part of \<open>parseUserMessage\<close> after the option patterns: confirm, change, reject\<close>
  "parseKeywords lower =
     (if lower = ''confirm'' \<or> lower = ''yes'' \<or> lower = ''y''
      then \<lparr>intent = Confirm, optionNumber = None\<rparr>
      else if lower = ''change'' \<or> lower = ''no'' \<or> lower = ''n''
      then \<lparr>intent = Change, optionNumber = None\<rparr>
      else
        (let isReject = list_ex (\<lambda>p. includes_str lower p) rejectPatterns
         in if isReject \<and> (includes_str lower ''far'' \<or> includes_str lower ''expensive''
                           \<or> includes_str lower ''vibe'')
            then \<lparr>intent = Reject, optionNumber = None\<rparr>
            else \<lparr>intent = Unknown, optionNumber = None\<rparr>))"

definition parseUserMessage :: "string \<Rightarrow> Parsed" where
  "parseUserMessage userText =
     (let lower = trim (toLowerCase userText) in
      if isCommand ''reset'' lower then \<lparr>intent = Reset, optionNumber = None\<rparr>
      else if isCommand ''profile'' lower then \<lparr>intent = ProfileIntent, optionNumber = None\<rparr>
      else if isCommand ''more'' lower then \<lparr>intent = More, optionNumber = None\<rparr>
      else (case bookMatch lower of
          Some num \<Rightarrow> \<lparr>intent = BookOption, optionNumber = Some num\<rparr>
        | None \<Rightarrow>
         (case optionMatch lower of
            Some num \<Rightarrow> \<lparr>intent = SelectOption, optionNumber = Some num\<rparr>
          | None \<Rightarrow> parseKeywords lower)))"

section \<open>Dialogue controller, Slots flow (conversation module, src/unnamed/part\_004)\<close>

subsection \<open>State\<close>

text \<open>
  A booking draft normally carries a restaurant id. The \<open>change\<close> branch of BOOKING\_CONFIRM
  spreads the draft even when there is none, which yields a draft without an id; the field
  is therefore optional.
\<close>

record BookingDraft =
  restaurantId :: "string option"
  date :: "string option"
  time :: "string option"
  partySize_d :: "int option"
  notes_d :: "string option"

record Booking =
  id_b :: string
  restaurantId_b :: "string option"
  date_b :: string
  time_b :: string
  partySize_b :: int
  notes_b :: "string option"
  ts_b :: nat

datatype Role = User | Assistant

record Message =
  id_m :: string
  role :: Role
  text_m :: string
  ts :: nat

record RecommendationMapping =
  m1 :: Restaurant
  m2 :: "Restaurant option"
  m3 :: "Restaurant option"

record Recommendations = Recommendation +
  mapping :: RecommendationMapping
  previousTopPickIds :: "string list option"

record ConversationContext =
  state :: ConversationState
  slots :: Slots
  bookingDraft :: "BookingDraft option"
  recommendations :: "Recommendations option"
  lastQuestion :: "string option"
  lastQuestionType :: "QuestionType option"

record SlotExtractionResult =
  slots_x :: Slots
  confidence :: rat

text \<open>
  What a turn reads from outside the function: the catalog, the stored message history, the
  clock (all \<open>Date.now()\<close> calls of one turn are taken to return the same instant), and the
  answers of the two remote capabilities. \<open>extractSlots\<close> answers \<open>None\<close> when the awaited
  call throws or its result has no usable \<open>slots\<close> object (the \<open>catch\<close> branches).
\<close>

record Env =
  catalog :: "Restaurant list"
  history :: "Message list"
  now :: nat
  extractSlots :: "string \<Rightarrow> Slots \<Rightarrow> string option \<Rightarrow> QuestionType option
                     \<Rightarrow> SlotExtractionResult option"
  parseRelativeDate :: "string \<Rightarrow> string"

text \<open>
  What a turn produces: the new context and the reply, and the two writes it may make to
  storage, the argument of \<open>saveProfile\<close> and the argument of \<open>addBooking\<close> (\<open>None\<close> when the
  call is not made). The persisted profile after the turn is the saved one if there is one,
  and the previous one otherwise.
\<close>

record Turn =
  newContext :: ConversationContext
  response :: string
  savedProfile :: "Profile option"
  addedBooking :: "Booking option"

record Result = Turn +
  messages :: "Message list"

definition reply :: "ConversationContext \<Rightarrow> string \<Rightarrow> Turn" where
  "reply ctx resp = \<lparr>newContext = ctx, response = resp, savedProfile = None, addedBooking = None\<rparr>"

definition persistedProfile :: "Profile \<Rightarrow> 'a Turn_scheme \<Rightarrow> Profile" where
  "persistedProfile stored t = (case savedProfile t of None \<Rightarrow> stored | Some p \<Rightarrow> p)"

subsection \<open>Helpers\<close>

definition nl :: string where
  "nl = [CHR 0x0A]"

definition orElse :: "string \<Rightarrow> string \<Rightarrow> string" where
  \<comment> \<open>\<open>a || b\<close> on strings\<close>
  "orElse a b = (if a \<noteq> [] then a else b)"

definition showOpt :: "string option \<Rightarrow> string" where
  \<comment> \<open>an optional string inside a template literal\<close>
  "showOpt x = (case x of None \<Rightarrow> ''undefined'' | Some s \<Rightarrow> s)"

definition showOptInt :: "int option \<Rightarrow> string" where
  "showOptInt x = (case x of None \<Rightarrow> ''undefined'' | Some n \<Rightarrow> showInt n)"

definition padStart2 :: "string \<Rightarrow> string" where
  \<comment> \<open>\<open>s.padStart(2, "0")\<close>\<close>
  "padStart2 s = replicate (2 - length s) (CHR ''0'') @ s"

text \<open>
  An extraction result is a \<open>Partial<Slots>\<close> read from JSON: a key is absent or holds a
  value of the slot's type, so the partial object is a \<open>Slots\<close> record and a key is present
  exactly when its field is \<open>Some\<close>.
\<close>

definition mergeSlots :: "Slots \<Rightarrow> Slots \<Rightarrow> Slots" where
  \<comment> \<open>the object spread \<open>{...a, ...b}\<close>: every key present in \<open>b\<close> wins\<close>
  "mergeSlots a b =
     \<lparr>mealTime = (case mealTime b of Some v \<Rightarrow> Some v | None \<Rightarrow> mealTime a),
      area = (case area b of Some v \<Rightarrow> Some v | None \<Rightarrow> area a),
      partySize = (case partySize b of Some v \<Rightarrow> Some v | None \<Rightarrow> partySize a),
      budget = (case budget b of Some v \<Rightarrow> Some v | None \<Rightarrow> budget a),
      cravingCuisines = (case cravingCuisines b of Some v \<Rightarrow> Some v | None \<Rightarrow> cravingCuisines a),
      vibe = (case vibe b of Some v \<Rightarrow> Some v | None \<Rightarrow> vibe a),
      dietary = (case dietary b of Some v \<Rightarrow> Some v | None \<Rightarrow> dietary a),
      avoid = (case avoid b of Some v \<Rightarrow> Some v | None \<Rightarrow> avoid a)\<rparr>"

definition mappingAt :: "RecommendationMapping \<Rightarrow> nat \<Rightarrow> Restaurant option" where
  "mappingAt m n = (if n = 1 then Some (m1 m) else if n = 2 then m2 m else if n = 3 then m3 m else None)"

definition selectedRestaurant :: "ConversationContext \<Rightarrow> nat \<Rightarrow> Restaurant option" where
  \<comment> \<open>\<open>newContext.recommendations?.mapping[n]\<close>\<close>
  "selectedRestaurant ctx n =
     (case recommendations ctx of None \<Rightarrow> None | Some rc \<Rightarrow> mappingAt (mapping rc) n)"

definition prevIds :: "ConversationContext \<Rightarrow> string list option" where
  \<comment> \<open>\<open>newContext.recommendations?.previousTopPickIds\<close>\<close>
  "prevIds ctx = (case recommendations ctx of None \<Rightarrow> None | Some rc \<Rightarrow> previousTopPickIds rc)"

definition formatPrice :: "Price \<Rightarrow> string" where
  "formatPrice p = (case p of Low \<Rightarrow> ''$'' | Mid \<Rightarrow> ''$$'' | High \<Rightarrow> ''$$$'')"

definition formatEntry :: "nat \<Rightarrow> RestaurantRecommendation \<Rightarrow> string" where
  "formatEntry num rr =
     showNat num @ '') '' @ name (restaurant rr) @ '' ('' @ area_r (restaurant rr) @ '') price: ''
       @ formatPrice (price (restaurant rr)) @ '' | '' @ join '', '' (cuisines (restaurant rr))
       @ '' | '' @ join '', '' (vibe_r (restaurant rr)) @ nl
       @ ''   Why: '' @ join ''; '' (reasons rr) @ nl"

definition pickHelp :: string where
  "pickHelp = ''Reply 1/2/3 to pick. Reply 'book 1' to book. Reply 'more' for other options.''"

definition formatRecommendationMessage :: "Recommendations option \<Rightarrow> Slots option \<Rightarrow> string" where
  "formatRecommendationMessage recs slotsOpt =
     (case recs of
        None \<Rightarrow> []
      | Some rc \<Rightarrow>
          (let topRestaurant = restaurant (topPick rc);
               message = [];
               message = (case slotsOpt of
                   None \<Rightarrow> message
                 | Some sl \<Rightarrow> (case cravingCuisines sl of
                       None \<Rightarrow> message
                     | Some requestedCuisines \<Rightarrow>
                         if length requestedCuisines > 0 then
                           (let hasMatch = list_ex (cuisineMatch topRestaurant) requestedCuisines
                            in if \<not> hasMatch then
                                 message @ ''I couldn't find '' @ join '' or '' requestedCuisines
                                   @ '' restaurants matching your criteria. Here are some great alternatives:''
                                   @ nl @ nl
                               else message)
                         else message));
               message = message @ ''Top pick:'' @ nl;
               message = message @ formatEntry 1 (topPick rc);
               message = (if length (alternatives rc) > 0 then
                   message @ nl @ ''Alternatives:'' @ nl
                     @ concat (map (\<lambda>(idx, alt). formatEntry (idx + 2) alt)
                                 (enumerate 0 (alternatives rc)))
                 else message);
               message = message @ nl @ pickHelp
           in message))"

fun recordSet :: "string \<Rightarrow> int \<Rightarrow> (string \<times> int) list \<Rightarrow> (string \<times> int) list" where
  \<comment> \<open>\<open>rec[k] = v\<close>: an existing key keeps its place, a new key goes last\<close>
  "recordSet k v [] = [(k, v)]"
| "recordSet k v ((k', v') # ps) = (if k' = k then (k', v) # ps else (k', v') # recordSet k v ps)"

definition bump :: "(string \<times> int) list \<Rightarrow> string \<Rightarrow> (string \<times> int) list" where
  \<comment> \<open>\<open>rec[k] = (rec[k] || 0) + 1\<close>\<close>
  "bump rec k = recordSet k (likeCount rec k + 1) rec"

definition slotVibeOf :: "string \<Rightarrow> string option" where
  "slotVibeOf v =
     (if v \<in> set [''romantic'', ''intimate'', ''elegant''] then Some ''romantic''
      else if v \<in> set [''lively'', ''casual'', ''fun''] then Some ''lively''
      else if v \<in> set [''quiet'', ''peaceful'', ''calm''] then Some ''quiet''
      else if v \<in> set [''outdoor'', ''patio'', ''garden''] then Some ''outdoor''
      else if v \<in> set [''family-friendly'', ''family''] then Some ''family''
      else if v \<in> set [''business'', ''professional'', ''upscale''] then Some ''business''
      else None)"

text \<open>
  The confirm branch copies the profile shallowly, raises the counters (in place, so also in
  the caller's object), sets \<open>lastArea\<close> on the copy and saves the copy; \<open>updateProfile\<close> is
  the saved profile.
\<close>

definition updateProfile :: "Restaurant \<Rightarrow> Profile \<Rightarrow> Profile" where
  "updateProfile rst profile =
     (let liked = foldl bump (cuisinesLiked profile) (cuisines rst);
          prefs = foldl (\<lambda>acc v. case slotVibeOf v of None \<Rightarrow> acc | Some sv \<Rightarrow> bump acc sv)
                    (vibePrefs profile) (vibe_r rst)
      in profile\<lparr>cuisinesLiked := liked, vibePrefs := prefs, lastArea := Some (area_r rst)\<rparr>)"

subsection \<open>Texts of the booking sub-flow\<close>

text \<open>
  The time expression \<open>/(\d{1,2}):?(\d{2})?\s*(am|pm|AM|PM)?/\<close> is unanchored and every part
  after the first is optional, so it matches at the first digit of the text and each part
  takes what it can; the three groups are returned. The party expression \<open>/\b(\d{1,2})\b/\<close>
  matches the first run of word characters that consists of one or two digits.
\<close>

definition timeMatch :: "string \<Rightarrow> (string \<times> string option \<times> string option) option" where
  "timeMatch txt =
     (case dropWhile (\<lambda>c. \<not> isDigit c) txt of
        [] \<Rightarrow> None
      | d1 # r1 \<Rightarrow>
          (let (g1, r2) = (case r1 of
                   [] \<Rightarrow> ([d1], r1)
                 | d2 # r \<Rightarrow> if isDigit d2 then ([d1, d2], r) else ([d1], r1));
               r3 = (case r2 of [] \<Rightarrow> r2 | c # r \<Rightarrow> if c = CHR '':'' then r else r2);
               (g2, r4) = (case r3 of
                   a # b # r \<Rightarrow> if isDigit a \<and> isDigit b then (Some [a, b], r) else (None, r3)
                 | _ \<Rightarrow> (None, r3));
               r5 = dropWhile isSpace r4;
               g3 = (if take 2 r5 \<in> set [''am'', ''pm'', ''AM'', ''PM''] then Some (take 2 r5)
                     else None)
           in Some (g1, g2, g3)))"

definition bookingTime :: "string \<Rightarrow> string" where
  "bookingTime userText =
     (case timeMatch userText of
        Some (g1, g2, g3) \<Rightarrow>
          (let hours = parseDigits g1;
               minutes = (case g2 of Some m \<Rightarrow> parseDigits m | None \<Rightarrow> 0);
               ampm = map_option toLowerCase g3;
               hours = (if ampm = Some ''pm'' \<and> hours < 12 then hours + 12 else hours);
               hours = (if ampm = Some ''am'' \<and> hours = 12 then 0 else hours)
           in padStart2 (showNat hours) @ '':'' @ padStart2 (showNat minutes))
      | None \<Rightarrow> trim userText)"

fun partyMatchFrom :: "bool \<Rightarrow> string \<Rightarrow> string option" where
  "partyMatchFrom prevWord [] = None"
| "partyMatchFrom prevWord (c # cs) =
     (if \<not> prevWord \<and> isDigit c then
        (case cs of
           [] \<Rightarrow> Some [c]
         | d # ds \<Rightarrow>
             if \<not> isWordChar d then Some [c]
             else if isDigit d \<and> (case ds of [] \<Rightarrow> True | e # _ \<Rightarrow> \<not> isWordChar e) then Some [c, d]
             else partyMatchFrom True cs)
      else partyMatchFrom (isWordChar c) cs)"

definition partyMatch :: "string \<Rightarrow> string option" where
  "partyMatch userText = partyMatchFrom False userText"

definition apos :: string where
  "apos = [CHR 0x27]"

definition dateQuestion :: string where
  "dateQuestion = ''What date would you like to book for? You can say things like 'tomorrow', 'Friday', or a specific date like '2024-12-25'.''"

definition timeQuestion :: string where
  "timeQuestion = ''Perfect! What time would you like? You can say things like '7pm', '19:00', or '7:30 PM'.''"

definition notesQuestion :: string where
  "notesQuestion = ''Any special notes or requests for the restaurant? If not, just say 'no'.''"

definition confirmReprompt :: string where
  "confirmReprompt = ''Please reply 'confirm' to book or 'change' to modify your booking.''"

definition selectReprompt :: string where
  "selectReprompt = ''I don't have that option. Please reply with 1, 2, or 3 to pick a restaurant.''"

definition bookReprompt :: string where
  "bookReprompt = ''I don't have that option. Please reply 'book 1', 'book 2', or 'book 3' to book a restaurant.''"

definition missingInfo :: string where
  "missingInfo = ''I'm sorry, there seems to be some missing information. Let's try again.''"

definition bookingSummary :: "Restaurant option \<Rightarrow> BookingDraft \<Rightarrow> string" where
  "bookingSummary rstOpt d =
     ''Here's your booking summary:'' @ nl
     @ ''Restaurant: '' @ orElse (case rstOpt of None \<Rightarrow> [] | Some r \<Rightarrow> name r) ''Unknown'' @ nl
     @ ''Date: '' @ showOpt (date d) @ nl
     @ ''Time: '' @ showOpt (time d) @ nl
     @ ''Party: '' @ showOptInt (partySize_d d) @ '' people'' @ nl
     @ ''Notes: '' @ orElse (case notes_d d of None \<Rightarrow> [] | Some n \<Rightarrow> n) ''None'' @ nl @ nl
     @ ''Does this look good? Reply 'confirm' to book or 'change' to modify.''"

subsection \<open>The profile command\<close>

definition topNames :: "(string \<times> int) list \<Rightarrow> string" where
  "topNames rec = join '', '' (map fst (take 5 (sort_key (\<lambda>e. - snd e) rec)))"

definition profileSummary :: "Profile \<Rightarrow> string" where
  "profileSummary profile =
     (let profileLines = [''Here's what I remember about your preferences:''];
          profileLines = (if length (cuisinesLiked profile) > 0
            then profileLines @ [''Cuisines you like: '' @ topNames (cuisinesLiked profile)]
            else profileLines);
          profileLines = (if length (vibePrefs profile) > 0
            then profileLines @ [''Vibe preferences: '' @ topNames (vibePrefs profile)]
            else profileLines);
          profileLines = (case budgetDefault profile of
              Some b \<Rightarrow> profileLines @ [''Your usual budget: '' @ budgetName b]
            | None \<Rightarrow> profileLines);
          profileLines = (case dietary_p profile of
              Some ds \<Rightarrow> if length ds > 0
                then profileLines @ [''Dietary preferences: '' @ join '', '' ds] else profileLines
            | None \<Rightarrow> profileLines);
          profileLines = (case lastArea profile of
              Some a \<Rightarrow> if a \<noteq> [] then profileLines @ [''Last area you visited: '' @ a]
                        else profileLines
            | None \<Rightarrow> profileLines)
      in join nl profileLines)"

subsection \<open>The branches of the state machine\<close>

text \<open>
  The block that computes recommendations and enters RECOMMEND occurs three times in the
  source (once in WELCOME, twice in DISCOVERY) with the same text; it is one definition here.
  \<open>recommendRestaurants\<close> throwing makes the whole turn fail (\<open>None\<close>).
\<close>

definition mkMapping :: "Recommendation \<Rightarrow> RecommendationMapping" where
  "mkMapping recs =
     \<lparr>m1 = restaurant (topPick recs),
      m2 = (case alternatives recs of a # _ \<Rightarrow> Some (restaurant a) | [] \<Rightarrow> None),
      m3 = (case alternatives recs of _ # b # _ \<Rightarrow> Some (restaurant b) | _ \<Rightarrow> None)\<rparr>"

definition showRecommendations :: "Env \<Rightarrow> ConversationContext \<Rightarrow> Profile \<Rightarrow> Turn option" where
  "showRecommendations env ctx profile =
     (case recommendRestaurants (catalog env) (slots ctx) profile (prevIds ctx) of
        None \<Rightarrow> None
      | Some recs \<Rightarrow>
          (let rc = \<lparr>topPick = topPick recs, alternatives = alternatives recs,
                     mapping = mkMapping recs,
                     previousTopPickIds = Some [id_r (restaurant (topPick recs))]\<rparr>;
               ctx' = ctx\<lparr>recommendations := Some rc, state := RECOMMEND,
                          lastQuestion := None, lastQuestionType := None\<rparr>
           in Some (reply ctx' (formatRecommendationMessage (recommendations ctx') (Some (slots ctx'))))))"

definition askNext :: "ConversationContext \<Rightarrow> Profile \<Rightarrow> Turn" where
  "askNext ctx profile =
     (let q = getNextDiscoveryQuestion (slots ctx) profile
      in reply (ctx\<lparr>lastQuestion := Some (question q), lastQuestionType := Some (qtype q)\<rparr>)
           (orElse (question q) ''What else can you tell me to help you find the perfect restaurant?''))"

definition mergeExtraction :: "Slots \<Rightarrow> SlotExtractionResult option \<Rightarrow> Slots" where
  \<comment> \<open>the \<open>try\<close> block around the merge: on error the slots are kept\<close>
  "mergeExtraction cur ex = (case ex of None \<Rightarrow> cur | Some x \<Rightarrow> mergeSlots cur (slots_x x))"

definition welcomeTurn :: "Env \<Rightarrow> string \<Rightarrow> ConversationContext \<Rightarrow> Profile \<Rightarrow> Turn option" where
  "welcomeTurn env userText ctx profile =
     (let ctx1 = ctx\<lparr>state := DISCOVERY\<rparr>;
          ctx2 = ctx1\<lparr>slots := mergeExtraction (slots ctx1)
                                  (extractSlots env userText (slots ctx1) None None)\<rparr>
      in if canRecommend (slots ctx2) profile then showRecommendations env ctx2 profile
         else Some (askNext ctx2 profile))"

definition discoveryTurn :: "Env \<Rightarrow> string \<Rightarrow> ConversationContext \<Rightarrow> Profile \<Rightarrow> Turn option" where
  "discoveryTurn env userText ctx profile =
     (if canRecommend (slots ctx) profile then showRecommendations env ctx profile
      else
        (let ctx2 = ctx\<lparr>slots := mergeExtraction (slots ctx)
                       (extractSlots env userText (slots ctx) (lastQuestion ctx) (lastQuestionType ctx))\<rparr>
         in if canRecommend (slots ctx2) profile then showRecommendations env ctx2 profile
            else Some (askNext ctx2 profile)))"

definition truthyOption :: "nat option \<Rightarrow> bool" where
  "truthyOption n = (case n of None \<Rightarrow> False | Some k \<Rightarrow> k \<noteq> 0)"

definition optionOf :: "Parsed \<Rightarrow> nat" where
  "optionOf parsed = (case optionNumber parsed of None \<Rightarrow> 0 | Some k \<Rightarrow> k)"

definition stuckQuestion :: string where
  "stuckQuestion = ''I don't have many other options with your current criteria. What would you like to change? You can say 'area', 'budget', or 'cuisine', or just tell me the new value (like 'downtown' for area).''"

definition rejectQuestion :: string where
  "rejectQuestion = ''I'd love to help you find something better! Is it too far, too expensive, or the wrong vibe?''"

definition recommendTurn :: "Env \<Rightarrow> Parsed \<Rightarrow> ConversationContext \<Rightarrow> Profile \<Rightarrow> Turn option" where
  "recommendTurn env parsed ctx profile =
     (if intent parsed = SelectOption \<and> truthyOption (optionNumber parsed) then
        (case selectedRestaurant ctx (optionOf parsed) of
           Some sel \<Rightarrow>
             Some (reply ctx (''Great choice! '' @ name sel
               @ '' looks perfect. Would you like me to book it? Just reply '' @ apos @ ''book ''
               @ showNat (optionOf parsed) @ apos @ '' to start, or 'more' to see other options.''))
         | None \<Rightarrow> Some (reply ctx selectReprompt))
      else if intent parsed = BookOption \<and> truthyOption (optionNumber parsed) then
        (case selectedRestaurant ctx (optionOf parsed) of
           Some sel \<Rightarrow>
             Some (reply
               (ctx\<lparr>bookingDraft := Some \<lparr>restaurantId = Some (id_r sel), date = None, time = None,
                                          partySize_d = partySize (slots ctx), notes_d = None\<rparr>,
                    state := BOOKING_COLLECT,
                    lastQuestion := Some dateQuestion,
                    lastQuestionType := None\<rparr>)
               dateQuestion)
         | None \<Rightarrow> Some (reply ctx bookReprompt))
      else if intent parsed = More then
        (case recommendRestaurants (catalog env) (slots ctx) profile (prevIds ctx) of
           None \<Rightarrow> None
         | Some recs \<Rightarrow>
             (let totalOptions = 1 + length (alternatives recs);
                  allRestaurantIds = id_r (restaurant (topPick recs))
                                       # map (\<lambda>alt. id_r (restaurant alt)) (alternatives recs);
                  previousIds = (case prevIds ctx of None \<Rightarrow> [] | Some ids \<Rightarrow> ids);
                  isStuck = (totalOptions \<le> 1
                             \<or> list_all (\<lambda>i. i \<in> set previousIds) allRestaurantIds)
              in if isStuck then
                   Some (reply (ctx\<lparr>state := REFINE, lastQuestion := Some stuckQuestion,
                                    lastQuestionType := None\<rparr>) stuckQuestion)
                 else
                   (let ids = previousIds @ [id_r (restaurant (topPick recs))];
                        rc = \<lparr>topPick = topPick recs, alternatives = alternatives recs,
                              mapping = mkMapping recs,
                              previousTopPickIds = Some (drop (length ids - 3) ids)\<rparr>;
                        ctx' = ctx\<lparr>recommendations := Some rc, lastQuestion := None,
                                   lastQuestionType := None\<rparr>
                    in Some (reply ctx'
                         (formatRecommendationMessage (recommendations ctx') (Some (slots ctx')))))))
      else if intent parsed = Reject then
        Some (reply (ctx\<lparr>state := REFINE, lastQuestion := Some rejectQuestion,
                         lastQuestionType := None\<rparr>) rejectQuestion)
      else
        (let q = getNextDiscoveryQuestion (slots ctx) profile
         in if question q \<noteq> [] then
              Some (reply (ctx\<lparr>state := DISCOVERY, lastQuestion := Some (question q),
                                lastQuestionType := Some (qtype q)\<rparr>) (question q))
            else Some (reply ctx pickHelp)))"

definition refineAsk :: "string \<Rightarrow> ConversationContext \<Rightarrow> Profile \<Rightarrow> Turn" where
  \<comment> \<open>the common tail of the REFINE branches: go to DISCOVERY and ask the next question\<close>
  "refineAsk lead ctx profile =
     (let q = getNextDiscoveryQuestion (slots ctx) profile
      in reply (ctx\<lparr>state := DISCOVERY, lastQuestion := Some (question q),
                     lastQuestionType := Some (qtype q)\<rparr>) (lead @ question q))"

definition refineClarify :: string where
  "refineClarify = ''I'd love to help you adjust your preferences! You can change the area, budget, cuisine, or vibe. What would you like to change?''"

definition refineTurn :: "Env \<Rightarrow> string \<Rightarrow> ConversationContext \<Rightarrow> Profile \<Rightarrow> Turn option" where
  "refineTurn env userText ctx profile =
     (let lowerText = trim (toLowerCase userText) in
      if lowerText = ''area'' \<or> includes_str lowerText ''area'' \<or> includes_str lowerText ''location''
         \<or> includes_str lowerText ''neighborhood'' then
        Some (refineAsk ''Sure! Let's change the area. ''
                (ctx\<lparr>slots := (slots ctx)\<lparr>area := None\<rparr>\<rparr>) profile)
      else if lowerText = ''budget'' \<or> lowerText = ''price'' \<or> includes_str lowerText ''budget''
         \<or> includes_str lowerText ''price'' then
        Some (refineAsk ''Sure! Let's change the budget. ''
                (ctx\<lparr>slots := (slots ctx)\<lparr>budget := None\<rparr>\<rparr>) profile)
      else if lowerText = ''cuisine'' \<or> lowerText = ''food'' \<or> includes_str lowerText ''cuisine''
         \<or> includes_str lowerText ''food type'' then
        Some (refineAsk ''Sure! Let's change the cuisine. ''
                (ctx\<lparr>slots := (slots ctx)\<lparr>cravingCuisines := None\<rparr>\<rparr>) profile)
      else
        (case extractSlots env userText (slots ctx) None None of
           None \<Rightarrow> Some (reply ctx refineClarify)
         | Some ex \<Rightarrow>
             if truthyStr (area (slots_x ex)) then
               Some (refineAsk ''Got it! I've updated the area. ''
                       (ctx\<lparr>slots := (slots ctx)\<lparr>area := area (slots_x ex)\<rparr>\<rparr>) profile)
             else if budget (slots_x ex) \<noteq> None then
               Some (refineAsk ''Got it! I've updated the budget. ''
                       (ctx\<lparr>slots := (slots ctx)\<lparr>budget := budget (slots_x ex)\<rparr>\<rparr>) profile)
             else if (case cravingCuisines (slots_x ex) of None \<Rightarrow> False | Some cs \<Rightarrow> length cs > 0) then
               Some (refineAsk ''Got it! I've updated the cuisine. ''
                       (ctx\<lparr>slots := (slots ctx)\<lparr>cravingCuisines := cravingCuisines (slots_x ex)\<rparr>\<rparr>)
                       profile)
             else if vibe (slots_x ex) \<noteq> None then
               Some (refineAsk ''Got it! I've updated the vibe. ''
                       (ctx\<lparr>slots := (slots ctx)\<lparr>vibe := vibe (slots_x ex)\<rparr>\<rparr>) profile)
             else Some (reply ctx refineClarify)))"

definition findRestaurant :: "Restaurant list \<Rightarrow> string option \<Rightarrow> Restaurant option" where
  \<comment> \<open>\<open>RESTAURANTS.find((r) => r.id === id)\<close>\<close>
  "findRestaurant RESTAURANTS rid = find (\<lambda>r. Some (id_r r) = rid) RESTAURANTS"

definition bookingCollectTurn :: "Env \<Rightarrow> string \<Rightarrow> ConversationContext \<Rightarrow> Turn" where
  "bookingCollectTurn env userText ctx =
     (case bookingDraft ctx of
        None \<Rightarrow>
          reply (ctx\<lparr>state := DISCOVERY, lastQuestion := None, lastQuestionType := None\<rparr>)
            ''Booking cancelled. What are you looking for?''
      | Some d \<Rightarrow>
          if \<not> truthyStr (date d) then
            reply (ctx\<lparr>bookingDraft := Some (d\<lparr>date := Some (parseRelativeDate env userText)\<rparr>),
                       lastQuestion := Some timeQuestion, lastQuestionType := None\<rparr>)
              timeQuestion
          else if \<not> truthyStr (time d) then
            (let d' = d\<lparr>time := Some (bookingTime userText)\<rparr>
             in if \<not> truthyNum (partySize_d d') then
                  reply (ctx\<lparr>bookingDraft := Some d',
                             lastQuestion := Some ''How many people will be joining?'',
                             lastQuestionType := Some QPartySize\<rparr>)
                    ''How many people will be joining?''
                else
                  reply (ctx\<lparr>bookingDraft := Some d', lastQuestion := Some notesQuestion,
                             lastQuestionType := None\<rparr>)
                    notesQuestion)
          else if partySize_d d = None then
            (let n = (case partyMatch userText of
                        Some ds \<Rightarrow> int (parseDigits ds)
                      | None \<Rightarrow> (if truthyNum (partySize (slots ctx))
                                  then (case partySize (slots ctx) of Some k \<Rightarrow> k | None \<Rightarrow> 2)
                                  else 2))
             in reply (ctx\<lparr>bookingDraft := Some (d\<lparr>partySize_d := Some n\<rparr>),
                           lastQuestion := Some notesQuestion, lastQuestionType := None\<rparr>)
                  notesQuestion)
          else if notes_d d = None then
            (let lowerText = toLowerCase userText;
                 d' = d\<lparr>notes_d := Some (if lowerText = ''no'' \<or> lowerText = ''n'' \<or> trim lowerText = []
                                          then [] else trim userText)\<rparr>;
                 rst = findRestaurant (catalog env) (restaurantId d');
                 q = bookingSummary rst d'
             in reply (ctx\<lparr>bookingDraft := Some d', state := BOOKING_CONFIRM,
                           lastQuestion := Some q, lastQuestionType := None\<rparr>) q)
          else reply ctx [])"

definition bookingConfirmTurn :: "Env \<Rightarrow> Parsed \<Rightarrow> ConversationContext \<Rightarrow> Profile \<Rightarrow> Turn" where
  "bookingConfirmTurn env parsed ctx profile =
     (if intent parsed = Confirm then
        (let done = ctx\<lparr>state := DISCOVERY, bookingDraft := None, lastQuestion := None,
                        lastQuestionType := None\<rparr>
         in case bookingDraft ctx of
              None \<Rightarrow> reply done missingInfo
            | Some d \<Rightarrow>
                (case (date d, time d, partySize_d d) of
                   (Some dt, Some tm, Some ps) \<Rightarrow>
                     if dt \<noteq> [] \<and> tm \<noteq> [] \<and> ps \<noteq> 0 then
                       (let booking = \<lparr>id_b = ''booking-'' @ showNat (now env),
                                       restaurantId_b = restaurantId d, date_b = dt, time_b = tm,
                                       partySize_b = ps, notes_b = notes_d d, ts_b = now env\<rparr>;
                            rst = findRestaurant (catalog env) (restaurantId_b booking);
                            resp = ''Perfect! Your booking is confirmed at ''
                              @ orElse (case rst of None \<Rightarrow> [] | Some r \<Rightarrow> name r) ''the restaurant''
                              @ '' for '' @ showInt ps @ '' people on '' @ dt @ '' at '' @ tm @ ''.''
                              @ (case notes_b booking of
                                   None \<Rightarrow> []
                                 | Some n \<Rightarrow> if n \<noteq> [] then '' I've noted: '' @ n else [])
                              @ '' Enjoy your meal!''
                        in \<lparr>newContext = done, response = resp,
                            savedProfile = map_option (\<lambda>r. updateProfile r profile) rst,
                            addedBooking = Some booking\<rparr>)
                     else reply done missingInfo
                 | _ \<Rightarrow> reply done missingInfo))
      else if intent parsed = Change then
        (let d = (case bookingDraft ctx of
                    None \<Rightarrow> \<lparr>restaurantId = None, date = None, time = None, partySize_d = None,
                              notes_d = None\<rparr>
                  | Some d0 \<Rightarrow> d0\<lparr>date := None, time := None, notes_d := None\<rparr>);
             q = ''No problem! Let's adjust that. What date would you like?''
         in reply (ctx\<lparr>state := BOOKING_COLLECT, bookingDraft := Some d,
                       lastQuestion := Some q, lastQuestionType := None\<rparr>) q)
      else reply ctx confirmReprompt)"

subsection \<open>processMessage\<close>

definition freshContext :: ConversationContext where
  "freshContext = \<lparr>state = DISCOVERY, slots = emptySlots, bookingDraft = None,
     recommendations = None, lastQuestion = None, lastQuestionType = None\<rparr>"

definition finish :: "Env \<Rightarrow> string \<Rightarrow> Turn \<Rightarrow> Result" where
  \<comment> \<open>append the user message and the reply to the history (\<open>saveHistory\<close>) and return\<close>
  "finish env userText t =
     \<lparr>newContext = newContext t, response = response t, savedProfile = savedProfile t,
      addedBooking = addedBooking t,
      messages = history env
        @ [\<lparr>id_m = ''msg-'' @ showNat (now env) @ ''-user'', role = User, text_m = userText,
            ts = now env\<rparr>,
           \<lparr>id_m = ''msg-'' @ showNat (now env) @ ''-assistant'', role = Assistant,
            text_m = response t, ts = now env\<rparr>]\<rparr>"

definition stateTurn :: "Env \<Rightarrow> string \<Rightarrow> ConversationContext \<Rightarrow> Profile \<Rightarrow> Turn option" where
  \<comment> \<open>the \<open>switch (newContext.state)\<close>\<close>
  "stateTurn env userText ctx profile =
     (let parsed = parseUserMessage userText in
      case state ctx of
        WELCOME \<Rightarrow> welcomeTurn env userText ctx profile
      | DISCOVERY \<Rightarrow> discoveryTurn env userText ctx profile
      | RECOMMEND \<Rightarrow> recommendTurn env parsed ctx profile
      | REFINE \<Rightarrow> refineTurn env userText ctx profile
      | BOOKING_COLLECT \<Rightarrow> Some (bookingCollectTurn env userText ctx)
      | BOOKING_CONFIRM \<Rightarrow> Some (bookingConfirmTurn env parsed ctx profile))"

definition processMessage :: "Env \<Rightarrow> string \<Rightarrow> ConversationContext \<Rightarrow> Profile \<Rightarrow> Result option" where
  "processMessage env userText ctx profile =
     (let lower = trim (toLowerCase userText) in
      if isCommand ''reset'' lower then
        Some (finish env userText (reply freshContext
          ''No problem! Let's start fresh. What are you in the mood for and what area are you thinking?''))
      else if isCommand ''profile'' lower then
        Some (finish env userText (reply ctx (profileSummary profile)))
      else map_option (finish env userText) (stateTurn env userText ctx profile))"

definition initializeConversation :: "Env \<Rightarrow> Profile \<Rightarrow> ConversationContext" where
  "initializeConversation env profile =
     \<lparr>state = (if length (history env) > 0 then DISCOVERY else WELCOME), slots = emptySlots,
      bookingDraft = None, recommendations = None, lastQuestion = None,
      lastQuestionType = None\<rparr>"

section \<open>Picking a restaurant in the ActiveRequest flow (newConversation module)\<close>

text \<open>
  Of \<open>processMessageNew\<close> only the branch that handles a pick (\<open>1\<close>, \<open>pick 2\<close>, \<open>pick #3\<close>) in
  mode recommending is modelled. The result is \<open>None\<close> when the branch does not apply and
  the function goes on to code that is not modelled; otherwise it holds the arguments of
  \<open>saveMode\<close> and \<open>saveSelectedRestaurantId\<close> and the reply. The pick expression is
  \<open>^(pick\s*#?\s*)?([123])$\<close>; the dash of the walk-in reply is given by its UTF-8 bytes.
\<close>

datatype RequestMode = Collecting | Recommending | Confirming

record PickOutcome =
  newMode :: RequestMode
  savedSelectedId :: "string option"
  assistantText :: string

definition pickMatch :: "string \<Rightarrow> nat option" where
  "pickMatch lower =
     (let rest = (if prefix ''pick'' lower then
                    (let r1 = dropWhile isSpace (drop 4 lower);
                         r2 = (case r1 of c # r \<Rightarrow> if c = CHR ''#'' then r else r1 | [] \<Rightarrow> r1)
                     in dropWhile isSpace r2)
                  else lower)
      in case rest of [c] \<Rightarrow> if c \<in> set ''123'' then Some (digitVal c) else None | _ \<Rightarrow> None)"

definition nthOpt :: "'a list \<Rightarrow> nat \<Rightarrow> 'a option" where
  \<comment> \<open>\<open>xs[i]\<close>, \<open>undefined\<close> out of range\<close>
  "nthOpt xs i = (if i < length xs then Some (xs ! i) else None)"

definition walkInText :: string where
  "walkInText = ''You can just head over'' @ [CHR 0xE2, CHR 0x80, CHR 0x94] @ ''no booking needed.''"

definition pickTurn ::
  "Restaurant list \<Rightarrow> string \<Rightarrow> ActiveRequest \<Rightarrow> RequestMode \<Rightarrow> PickOutcome option" where
  "pickTurn RESTAURANTS userText activeRequest mode =
     (let lower = trim (toLowerCase userText) in
      if mode = Recommending then
        (case pickMatch lower of
           None \<Rightarrow> None
         | Some num \<Rightarrow>
             (let recs = getTopRestaurants RESTAURANTS activeRequest;
                  restaurants = (case top_t recs of None \<Rightarrow> [] | Some t \<Rightarrow> [t]) @ alternatives_t recs
              in case nthOpt restaurants (num - 1) of
                   None \<Rightarrow> None
                 | Some selected \<Rightarrow>
                     if \<not> bookingAvailable selected then
                       Some \<lparr>newMode = Collecting, savedSelectedId = None,
                             assistantText = walkInText
                               @ (case discountCode selected of
                                    None \<Rightarrow> []
                                  | Some code \<Rightarrow>
                                      if code \<noteq> [] then
                                        '' Present this code at the door for a discount: **'' @ code @ ''**''
                                      else [])\<rparr>
                     else
                       (let dateStr = (if truthyStr (date_q activeRequest)
                                       then showOpt (date_q activeRequest) else ''your date'');
                            timeStr = (if truthyStr (time_q activeRequest)
                                       then showOpt (time_q activeRequest) else ''your time'');
                            partyStr = (if truthyNum (partySize_q activeRequest)
                                        then showOptInt (partySize_q activeRequest) else ''your party'')
                        in Some \<lparr>newMode = Confirming, savedSelectedId = Some (id_r selected),
                                 assistantText = ''Cool. Confirming '' @ name selected @ '' for ''
                                   @ partyStr @ '' on '' @ dateStr @ '' at '' @ timeStr
                                   @ ''. Reply 'Skip' to skip, or type your note.''\<rparr>)))
      else None)"

section \<open>Example catalog entries\<close>

text \<open>
  Two catalog entries on which the theorems below are instantiated: a bookable restaurant
  and a walk-in-only venue with a discount code.
\<close>

definition exBistro :: Restaurant where
  "exBistro = \<lparr>id_r = ''r1'', name = ''Bistro Luna'', area_r = ''Hamra'', city = ''Beirut'',
     cuisines = [''Italian''], price = Mid, vibe_r = [''romantic'', ''intimate''],
     dietary_r = [''vegetarian''], rating = 9/2, highlights = [''rooftop view''],
     bookingAvailable = True, discountCode = None\<rparr>"

definition exShack :: Restaurant where
  "exShack = \<lparr>id_r = ''r2'', name = ''Burger Shack'', area_r = ''Gemmayze'', city = ''Beirut'',
     cuisines = [''American''], price = Low, vibe_r = [''casual''],
     dietary_r = [], rating = 4, highlights = [],
     bookingAvailable = False, discountCode = Some ''WALKIN10''\<rparr>"

definition emptyRequest :: ActiveRequest where
  "emptyRequest = \<lparr>area_q = None, cuisine_q = None, budget_q = None, partySize_q = None,
     date_q = None, time_q = None, notes_q = None\<rparr>"

definition exEnv :: Env where
  "exEnv = \<lparr>catalog = [exShack, exBistro], history = [], now = 0,
     extractSlots = (\<lambda>userMessage currentSlots q qt.
        Some \<lparr>slots_x = emptySlots\<lparr>area := Some ''Gemmayze'', mealTime := Some Lunch,
                  partySize := Some 2, budget := Some Cheap\<rparr>, confidence = 9/10\<rparr>),
     parseRelativeDate = (\<lambda>dateString. dateString)\<rparr>"

definition exConfirmContext :: ConversationContext where
  "exConfirmContext = \<lparr>state = BOOKING_CONFIRM, slots = emptySlots,
     bookingDraft = Some \<lparr>restaurantId = Some ''r1'', date = Some ''2025-01-01'',
        time = Some ''19:00'', partySize_d = Some 2, notes_d = Some []\<rparr>,
     recommendations = None, lastQuestion = None, lastQuestionType = None\<rparr>"


definition exDiscoveryContext :: ConversationContext where
  "exDiscoveryContext = \<lparr>state = DISCOVERY, slots = emptySlots\<lparr>area := Some ''Hamra''\<rparr>,
     bookingDraft = None, recommendations = None,
     lastQuestion = Some ''How many people will be joining you? Just let me know the number.'',
     lastQuestionType = Some QPartySize\<rparr>"

definition exAreaEnv :: Env where
  "exAreaEnv = \<lparr>catalog = [exShack, exBistro], history = [], now = 0,
     extractSlots = (\<lambda>userMessage currentSlots q qt.
        Some \<lparr>slots_x = emptySlots\<lparr>area := Some ''Gemmayze'', partySize := Some 4\<rparr>,
              confidence = 9/10\<rparr>),
     parseRelativeDate = (\<lambda>dateString. dateString)\<rparr>"

definition exCollectContext :: ConversationContext where
  "exCollectContext = \<lparr>state = BOOKING_COLLECT,
     slots = emptySlots\<lparr>area := Some ''Hamra'', partySize := Some 2, budget := Some BMid,
        mealTime := Some Dinner\<rparr>,
     bookingDraft = Some \<lparr>restaurantId = Some ''r1'', date = None, time = None,
        partySize_d = Some 2, notes_d = None\<rparr>,
     recommendations = None, lastQuestion = Some dateQuestion, lastQuestionType = None\<rparr>"

section \<open>Notions used to state the merge property\<close>

text \<open>
  The extraction call a WELCOME or DISCOVERY turn makes (WELCOME passes no question), and the
  value an extraction result carries for a slot (\<open>None\<close> when the call failed or the key is
  absent).
\<close>

definition turnExtraction :: "Env \<Rightarrow> string \<Rightarrow> ConversationContext \<Rightarrow> SlotExtractionResult option" where
  "turnExtraction env userText ctx =
     (if state ctx = WELCOME then extractSlots env userText (slots ctx) None None
      else extractSlots env userText (slots ctx) (lastQuestion ctx) (lastQuestionType ctx))"

definition carried :: "SlotExtractionResult option \<Rightarrow> (Slots \<Rightarrow> 'a option) \<Rightarrow> 'a option" where
  "carried ex field = (case ex of None \<Rightarrow> None | Some x \<Rightarrow> field (slots_x x))"

section \<open>The additive score as the specification words it\<close>




section \<open>Properties of the discovery policy\<close>

lemma priorityOrder_split:
  assumes "priorityOrder = pre @ a # post"
  shows "(pre = [] \<and> a = QArea)
       \<or> (pre = [QArea] \<and> a = QMealTime)
       \<or> (pre = [QArea, QMealTime] \<and> a = QPartySize)
       \<or> (pre = [QArea, QMealTime, QPartySize] \<and> a = QBudget)
       \<or> (pre = [QArea, QMealTime, QPartySize, QBudget] \<and> a = QCuisine)
       \<or> (pre = [QArea, QMealTime, QPartySize, QBudget, QCuisine] \<and> a = QDietary)"
  using assms unfolding priorityOrder_def
  by (auto simp: Cons_eq_append_conv)

lemma first_missing_is_asked:
  assumes "priorityOrder = pre @ a # post"
    and "slotMissing a s"
    and "\<forall>c\<in>set pre. \<not> slotMissing c s"
  shows "qtype (getNextDiscoveryQuestion s p) = a \<and> question (getNextDiscoveryQuestion s p) \<noteq> []"
  using priorityOrder_split[OF assms(1)] assms(2,3)
  by (auto simp: getNextDiscoveryQuestion_def)

text \<open>
  C8. The discovery policy asks in the fixed order area, mealTime, partySize, budget,
  cuisine-or-vibe, dietary: the first missing slot of that order is the one asked for, with
  a non-empty question. In particular, when exactly two slots are missing the earlier one is
  asked, and with only the budget set the question is of type area.
\<close>

theorem C8_priority_order:
  "(priorityOrder = pre @ a # post \<and> slotMissing a s \<and> (\<forall>c\<in>set pre. \<not> slotMissing c s)
      \<longrightarrow> qtype (getNextDiscoveryQuestion s p) = a \<and> question (getNextDiscoveryQuestion s p) \<noteq> [])
   \<and> (priorityOrder = pre2 @ a2 # mid @ b2 # post2 \<and> slotMissing a2 s \<and> slotMissing b2 s
        \<and> (\<forall>c. slotMissing c s \<longrightarrow> c = a2 \<or> c = b2)
      \<longrightarrow> qtype (getNextDiscoveryQuestion s p) = a2 \<and> question (getNextDiscoveryQuestion s p) \<noteq> [])
   \<and> qtype (getNextDiscoveryQuestion (emptySlots\<lparr>budget := Some BMid\<rparr>) p) = QArea"
proof (intro conjI impI)
  assume h: "priorityOrder = pre @ a # post \<and> slotMissing a s \<and> (\<forall>c\<in>set pre. \<not> slotMissing c s)"
  then show "qtype (getNextDiscoveryQuestion s p) = a" using first_missing_is_asked by blast
  from h show "question (getNextDiscoveryQuestion s p) \<noteq> []" using first_missing_is_asked by blast
next
  assume h: "priorityOrder = pre2 @ a2 # mid @ b2 # post2 \<and> slotMissing a2 s \<and> slotMissing b2 s
        \<and> (\<forall>c. slotMissing c s \<longrightarrow> c = a2 \<or> c = b2)"
  have d: "distinct priorityOrder" by (simp add: priorityOrder_def)
  from h d have "distinct (pre2 @ a2 # mid @ b2 # post2)" by metis
  then have "a2 \<notin> set pre2" "b2 \<notin> set pre2" by auto
  with h have np: "\<forall>c\<in>set pre2. \<not> slotMissing c s" by blast
  from h have po: "priorityOrder = pre2 @ a2 # (mid @ b2 # post2)" by simp
  from first_missing_is_asked[OF po _ np] h
  show "qtype (getNextDiscoveryQuestion s p) = a2" "question (getNextDiscoveryQuestion s p) \<noteq> []"
    by blast+
next
  show "qtype (getNextDiscoveryQuestion (emptySlots\<lparr>budget := Some BMid\<rparr>) p) = QArea"
    by (simp add: getNextDiscoveryQuestion_def emptySlots_def)
qed

theorem C8_witness:
  "qtype (getNextDiscoveryQuestion (emptySlots\<lparr>budget := Some BMid, mealTime := Some Lunch,
       cravingCuisines := Some [''Thai''], dietary := Some []\<rparr>) emptyProfile) = QArea
   \<and> question (getNextDiscoveryQuestion (emptySlots\<lparr>budget := Some BMid, mealTime := Some Lunch,
       cravingCuisines := Some [''Thai''], dietary := Some []\<rparr>) emptyProfile) \<noteq> []"
proof -
  let ?s = "emptySlots\<lparr>budget := Some BMid, mealTime := Some Lunch,
       cravingCuisines := Some [''Thai''], dietary := Some []\<rparr>"
  have po: "priorityOrder = [] @ QArea # [QMealTime] @ QPartySize # [QBudget, QCuisine, QDietary]"
    by (simp add: priorityOrder_def)
  have m: "slotMissing QArea ?s" "slotMissing QPartySize ?s"
    by (simp_all add: emptySlots_def)
  have o: "\<forall>c. slotMissing c ?s \<longrightarrow> c = QArea \<or> c = QPartySize"
  proof (intro allI impI)
    fix c assume "slotMissing c ?s"
    then show "c = QArea \<or> c = QPartySize"
      by (cases c) (simp_all add: emptySlots_def)
  qed
  from C8_priority_order[where ?pre2.0="[]" and ?a2.0=QArea and mid="[QMealTime]" and ?b2.0=QPartySize
      and ?post2.0="[QBudget, QCuisine, QDietary]" and s="?s" and p=emptyProfile]
    po m o
  show ?thesis by blast
qed

text \<open>
  C1 (as stated, refuted). With area, party size, budget and vibe set and no meal time, the
  completion predicate holds and the discovery policy still returns a question, of type
  mealTime.
\<close>

theorem C1_counterexample:
  "canRecommend (emptySlots\<lparr>area := Some ''Hamra'', partySize := Some 2, budget := Some BMid,
        vibe := Some Romantic\<rparr>) emptyProfile
   \<and> question (getNextDiscoveryQuestion (emptySlots\<lparr>area := Some ''Hamra'', partySize := Some 2,
        budget := Some BMid, vibe := Some Romantic\<rparr>) emptyProfile) \<noteq> []
   \<and> qtype (getNextDiscoveryQuestion (emptySlots\<lparr>area := Some ''Hamra'', partySize := Some 2,
        budget := Some BMid, vibe := Some Romantic\<rparr>) emptyProfile) = QMealTime"
  by (simp add: canRecommend_def getNextDiscoveryQuestion_def emptySlots_def)

text \<open>
  C1 (amended). Where the completion predicate holds, the discovery policy never asks for
  area, party size or budget: its question is of type mealTime, cuisine or dietary, and it
  is the empty question exactly when, in addition, the meal time is set, the cuisine list or
  the vibe is present, and the dietary list is present.
\<close>

theorem C1_completion_and_policy:
  assumes "canRecommend s p"
  shows "qtype (getNextDiscoveryQuestion s p) \<in> {QMealTime, QCuisine, QDietary}
     \<and> (question (getNextDiscoveryQuestion s p) = [] \<longleftrightarrow>
          mealTime s \<noteq> None \<and> (cravingCuisines s \<noteq> None \<or> vibe s \<noteq> None) \<and> dietary s \<noteq> None)"
  using assms
  by (auto simp: canRecommend_def getNextDiscoveryQuestion_def Let_def)

theorem C1_witness:
  "canRecommend (emptySlots\<lparr>area := Some ''Hamra'', partySize := Some 2, budget := Some BMid,
        mealTime := Some Dinner, vibe := Some Romantic, dietary := Some []\<rparr>) emptyProfile
   \<and> question (getNextDiscoveryQuestion (emptySlots\<lparr>area := Some ''Hamra'', partySize := Some 2,
        budget := Some BMid, mealTime := Some Dinner, vibe := Some Romantic,
        dietary := Some []\<rparr>) emptyProfile) = []"
proof -
  let ?s = "emptySlots\<lparr>area := Some ''Hamra'', partySize := Some 2, budget := Some BMid,
        mealTime := Some Dinner, vibe := Some Romantic, dietary := Some []\<rparr>"
  have c: "canRecommend ?s emptyProfile"
    by (simp add: canRecommend_def emptySlots_def)
  from C1_completion_and_policy[OF c] c show ?thesis
    by (simp add: emptySlots_def)
qed

section \<open>Properties of the recommendation engine\<close>

lemma includes_str_sublist: "includes_str s t = sublist t s"
  by (induction s) (auto simp: sublist_Cons_right)







lemma sorted_desc_sortByScoreDesc:
  "sorted_wrt (\<lambda>a b. score b \<le> score a) (sortByScoreDesc xs)"
proof -
  have "sorted (map (\<lambda>x. - score x) (sortByScoreDesc xs))"
    unfolding sortByScoreDesc_def by (rule sorted_sort_key)
  then show ?thesis
    by (simp add: sorted_map)
qed

lemma mset_sortByScoreDesc: "mset (sortByScoreDesc xs) = mset xs"
  by (simp add: sortByScoreDesc_def)

text \<open>
  C6. With a previously-shown list that holds at least one id, the output of
  \<open>diversifyRecommendations\<close> consists of the input items, where every item whose id is in
  the list has its score multiplied by 0.3 and every other item is unchanged, and the output
  is sorted by descending adjusted score.
\<close>

theorem C6_diversify:
  assumes "pid \<in> set prev"
  shows "mset (diversifyRecommendations scored (Some prev))
           = image_mset (\<lambda>it. if id_r (restaurant_s it) \<in> set prev
                               then it\<lparr>score := score it * (3/10)\<rparr> else it) (mset scored)
       \<and> sorted_wrt (\<lambda>a b. score b \<le> score a) (diversifyRecommendations scored (Some prev))"
proof -
  from assms have ne: "length prev \<noteq> 0" by auto
  show ?thesis
    using ne
    by (simp add: diversifyRecommendations_def Let_def mset_sortByScoreDesc
        sorted_desc_sortByScoreDesc)
qed

theorem C6_witness:
  "''r1'' \<in> set [''r1'']
   \<and> diversifyRecommendations
        [\<lparr>restaurant_s = exBistro, score = 5\<rparr>, \<lparr>restaurant_s = exShack, score = 4\<rparr>] (Some [''r1''])
      = [\<lparr>restaurant_s = exShack, score = 4\<rparr>, \<lparr>restaurant_s = exBistro, score = 3/2\<rparr>]
   \<and> sorted_wrt (\<lambda>a b. score b \<le> score a) (diversifyRecommendations
        [\<lparr>restaurant_s = exBistro, score = 5\<rparr>, \<lparr>restaurant_s = exShack, score = 4\<rparr>] (Some [''r1'']))"
proof -
  have h: "''r1'' \<in> set [''r1'']" by simp
  have e: "diversifyRecommendations
        [\<lparr>restaurant_s = exBistro, score = 5\<rparr>, \<lparr>restaurant_s = exShack, score = 4\<rparr>] (Some [''r1''])
      = [\<lparr>restaurant_s = exShack, score = 4\<rparr>, \<lparr>restaurant_s = exBistro, score = 3/2\<rparr>]"
    by (simp add: diversifyRecommendations_def sortByScoreDesc_def exBistro_def exShack_def)
  from C6_diversify[OF h, of "[\<lparr>restaurant_s = exBistro, score = 5\<rparr>, \<lparr>restaurant_s = exShack, score = 4\<rparr>]"]
  show ?thesis using h e by simp
qed

text \<open>
  C10. Without a previously-shown list, or with an empty one, \<open>diversifyRecommendations\<close>
  returns its input unchanged: same items, same scores, same order.
\<close>

theorem C10_diversify_identity:
  "diversifyRecommendations scored None = scored
   \<and> diversifyRecommendations scored (Some []) = scored"
  by (simp add: diversifyRecommendations_def)

lemma set_sortByScoreDesc: "set (sortByScoreDesc xs) = set xs"
  by (simp add: sortByScoreDesc_def)

lemma sortByScoreDesc_Nil_iff: "sortByScoreDesc xs = [] \<longleftrightarrow> xs = []"
  by (metis mset_sortByScoreDesc mset_zero_iff)

lemma diversify_Nil_iff: "diversifyRecommendations xs prev = [] \<longleftrightarrow> xs = []"
  by (auto simp: diversifyRecommendations_def Let_def sortByScoreDesc_Nil_iff split: option.splits)

lemma hd_sortByScoreDesc_max:
  assumes "sortByScoreDesc xs = t # rest"
  shows "t \<in> set xs \<and> (\<forall>x\<in>set xs. score x \<le> score t)"
proof -
  have s: "sorted_wrt (\<lambda>a b. score b \<le> score a) (t # rest)"
    using sorted_desc_sortByScoreDesc[of xs] assms by simp
  have m: "set xs = set (t # rest)"
    using mset_sortByScoreDesc[of xs] assms by (metis set_mset_mset)
  show ?thesis using s m by auto
qed

lemma recommend_fallback:
  assumes ne: "RESTAURANTS \<noteq> []" and f: "filterRestaurants RESTAURANTS sl profile = []"
  shows "\<exists>rec. recommendRestaurants RESTAURANTS sl profile prev = Some rec
            \<and> restaurant (topPick rec) \<in> set RESTAURANTS
            \<and> (\<forall>r\<in>set RESTAURANTS. scoreRestaurant r sl profile
                  \<le> scoreRestaurant (restaurant (topPick rec)) sl profile)
            \<and> alternatives rec = []"
proof -
  let ?all = "sortByScoreDesc (map (mkScored sl profile) RESTAURANTS)"
  from ne have "?all \<noteq> []" by (simp add: sortByScoreDesc_Nil_iff)
  then obtain t rest where tr: "?all = t # rest" by (cases ?all) auto
  from hd_sortByScoreDesc_max[OF tr]
  have t: "t \<in> set (map (mkScored sl profile) RESTAURANTS)"
    and mx: "\<forall>x\<in>set (map (mkScored sl profile) RESTAURANTS). score x \<le> score t" by auto
  from t obtain r0 where r0: "r0 \<in> set RESTAURANTS" "t = mkScored sl profile r0" by auto
  have sc: "score t = scoreRestaurant r0 sl profile" "restaurant_s t = r0"
    using r0 by (simp_all add: mkScored_def)
  have mx': "\<forall>r\<in>set RESTAURANTS. scoreRestaurant r sl profile \<le> scoreRestaurant r0 sl profile"
    using mx sc by (auto simp: mkScored_def)
  have "recommendRestaurants RESTAURANTS sl profile prev
        = Some \<lparr>topPick = mkRecommendation sl profile t, alternatives = []\<rparr>"
    using f tr by (simp add: recommendRestaurants_def Let_def)
  then show ?thesis using r0 sc mx' by (simp add: mkRecommendation_def)
qed

lemma filterRestaurants_subset: "set (filterRestaurants RESTAURANTS sl profile) \<subseteq> set RESTAURANTS"
  by (auto simp: filterRestaurants_def Let_def split: option.splits if_splits)

lemma recommend_never_none:
  assumes ne: "RESTAURANTS \<noteq> []"
  shows "\<exists>rec. recommendRestaurants RESTAURANTS sl profile prev = Some rec
            \<and> restaurant (topPick rec) \<in> set RESTAURANTS"
proof (cases "filterRestaurants RESTAURANTS sl profile = []")
  case True
  from recommend_fallback[OF ne True] show ?thesis by blast
next
  case False
  let ?f = "filterRestaurants RESTAURANTS sl profile"
  let ?d = "diversifyRecommendations (sortByScoreDesc (map (mkScored sl profile) ?f)) prev"
  from False have "?d \<noteq> []" by (simp add: diversify_Nil_iff sortByScoreDesc_Nil_iff)
  then obtain t rest where tr: "?d = t # rest" by (cases ?d) auto
  have sub: "restaurant_s ` set ?d \<subseteq> set ?f"
    by (auto simp: diversifyRecommendations_def Let_def mkScored_def set_sortByScoreDesc
        split: option.splits if_splits)
  have "restaurant_s t \<in> set ?f" using sub tr by auto
  then have "restaurant_s t \<in> set RESTAURANTS" using filterRestaurants_subset by blast
  moreover have "recommendRestaurants RESTAURANTS sl profile prev
      = Some \<lparr>topPick = mkRecommendation sl profile t,
              alternatives = map (mkRecommendation sl profile) (take 2 rest)\<rparr>"
    using False tr by (simp add: recommendRestaurants_def Let_def)
  ultimately show ?thesis by (simp add: mkRecommendation_def)
qed


lemma sorted_desc_take_drop:
  assumes "sorted_wrt (\<lambda>a b. f b \<le> (f a :: rat)) xs"
  shows "\<forall>x\<in>set (take n xs). \<forall>y\<in>set (drop n xs). f y \<le> f x"
proof -
  have "sorted_wrt (\<lambda>a b. f b \<le> f a) (take n xs @ drop n xs)" using assms by simp
  then show ?thesis unfolding sorted_wrt_append by blast
qed

lemma getTop_fallback:
  assumes ne: "RESTAURANTS \<noteq> []"
    and f: "filterByArea RESTAURANTS req = []"
  shows "\<exists>t. top_t (getTopRestaurants RESTAURANTS req) = Some t
          \<and> t # alternatives_t (getTopRestaurants RESTAURANTS req)
               = take 3 (sort_key (\<lambda>r. - rating r) RESTAURANTS)"
proof -
  let ?s = "sort_key (\<lambda>r. - rating r) RESTAURANTS"
  from ne have "?s \<noteq> []" by (metis mset_sort mset_zero_iff)
  then obtain t rest where tr: "?s = t # rest" by (cases ?s) auto
  show ?thesis using f tr
    by (simp add: getTopRestaurants_def Let_def take_Suc_conv_app_nth numeral_3_eq_3 drop_Suc
        split: list.splits)
qed


lemma top3_highest_rated:
  fixes RESTAURANTS :: "Restaurant list"
  defines "L \<equiv> take 3 (sort_key (\<lambda>r. - rating r) RESTAURANTS)"
  shows "length L = min 3 (length RESTAURANTS)
       \<and> mset L \<subseteq># mset RESTAURANTS
       \<and> sorted_wrt (\<lambda>a b. rating b \<le> rating a) L
       \<and> (\<forall>x\<in>set L. \<forall>y\<in>#(mset RESTAURANTS - mset L). rating y \<le> rating x)"
proof -
  let ?S = "sort_key (\<lambda>r. - rating r) RESTAURANTS"
  have srt: "sorted_wrt (\<lambda>a b. rating b \<le> rating a) ?S"
  proof -
    have "sorted (map (\<lambda>r. - rating r) ?S)" by (rule sorted_sort_key)
    then show ?thesis by (simp add: sorted_map)
  qed
  have ms: "mset ?S = mset RESTAURANTS" by simp
  have split: "mset ?S = mset L + mset (drop 3 ?S)"
    unfolding L_def by (metis append_take_drop_id mset_append)
  have len: "length L = min 3 (length RESTAURANTS)" unfolding L_def by (simp add: min.commute)
  have sub: "mset L \<subseteq># mset RESTAURANTS" using split ms by (metis mset_subset_eq_add_left)
  have sl: "sorted_wrt (\<lambda>a b. rating b \<le> rating a) L"
    unfolding L_def using srt by (rule sorted_wrt_take)
  have rest: "mset RESTAURANTS - mset L = mset (drop 3 ?S)"
    using split ms by (metis add_diff_cancel_left')
  have "\<forall>x\<in>set L. \<forall>y\<in>set (drop 3 ?S). rating y \<le> rating x"
    unfolding L_def using sorted_desc_take_drop[OF srt] by blast
  then have "\<forall>x\<in>set L. \<forall>y\<in>#(mset RESTAURANTS - mset L). rating y \<le> rating x"
    unfolding rest by simp
  with len sub sl show ?thesis by blast
qed

lemma getTop_never_none:
  assumes ne: "RESTAURANTS \<noteq> []"
  shows "\<exists>t. top_t (getTopRestaurants RESTAURANTS req) = Some t \<and> t \<in> set RESTAURANTS"
proof (cases "filterByArea RESTAURANTS req = []")
  case True
  from getTop_fallback[OF ne True] obtain t where
    t: "top_t (getTopRestaurants RESTAURANTS req) = Some t"
       "t # alternatives_t (getTopRestaurants RESTAURANTS req)
          = take 3 (sort_key (\<lambda>r. - rating r) RESTAURANTS)" by blast
  have "t \<in> set (take 3 (sort_key (\<lambda>r. - rating r) RESTAURANTS))"
    using t(2) by (metis list.set_intros(1))
  then have "t \<in> set (sort_key (\<lambda>r. - rating r) RESTAURANTS)" by (rule in_set_takeD)
  then show ?thesis using t(1) by simp
next
  case False
  let ?f = "filterByArea RESTAURANTS req"
  let ?sc = "sortByScoreDesc (map (\<lambda>r. \<lparr>restaurant_s = r, score = scoreActive req r\<rparr>) ?f)"
  from False have "?sc \<noteq> []" by (simp add: sortByScoreDesc_Nil_iff)
  then obtain x rest where xr: "?sc = x # rest" by (cases ?sc) auto
  have "x \<in> set ?sc" using xr by simp
  then have "restaurant_s x \<in> set ?f" by (auto simp: set_sortByScoreDesc)
  then have "restaurant_s x \<in> set RESTAURANTS" by (auto simp: filterByArea_def)
  then show ?thesis using False xr by (simp add: getTopRestaurants_def Let_def)
qed

text \<open>
  C5. On a non-empty catalog neither recommendation operation returns an empty result. When
  the Slots-flow filter leaves nothing, \<open>recommendRestaurants\<close> returns a top pick taken from
  the whole catalog, one of maximal score over the whole catalog, with no alternatives. When
  the ActiveRequest-flow area filter leaves nothing, \<open>getTopRestaurants\<close> returns the (up to)
  three highest-rated restaurants of the whole catalog, best first.
\<close>

theorem C5_fallback_never_empty:
  assumes "RESTAURANTS \<noteq> []"
  shows "(filterRestaurants RESTAURANTS sl profile = [] \<longrightarrow>
            (\<exists>rec. recommendRestaurants RESTAURANTS sl profile prev = Some rec
               \<and> restaurant (topPick rec) \<in> set RESTAURANTS
               \<and> (\<forall>r\<in>set RESTAURANTS. scoreRestaurant r sl profile
                     \<le> scoreRestaurant (restaurant (topPick rec)) sl profile)
               \<and> alternatives rec = []))
       \<and> (filterByArea RESTAURANTS req = [] \<longrightarrow>
            (\<exists>t. top_t (getTopRestaurants RESTAURANTS req) = Some t
               \<and> t \<in> set RESTAURANTS
               \<and> length (t # alternatives_t (getTopRestaurants RESTAURANTS req))
                    = min 3 (length RESTAURANTS)
               \<and> mset (t # alternatives_t (getTopRestaurants RESTAURANTS req)) \<subseteq># mset RESTAURANTS
               \<and> sorted_wrt (\<lambda>a b. rating b \<le> rating a)
                    (t # alternatives_t (getTopRestaurants RESTAURANTS req))
               \<and> (\<forall>x\<in>set (t # alternatives_t (getTopRestaurants RESTAURANTS req)).
                    \<forall>y\<in>#(mset RESTAURANTS
                            - mset (t # alternatives_t (getTopRestaurants RESTAURANTS req))).
                      rating y \<le> rating x)))
       \<and> (\<exists>rec. recommendRestaurants RESTAURANTS sl profile prev = Some rec
               \<and> restaurant (topPick rec) \<in> set RESTAURANTS)
       \<and> (\<exists>t. top_t (getTopRestaurants RESTAURANTS req) = Some t \<and> t \<in> set RESTAURANTS)"
proof (intro conjI impI)
  assume "filterRestaurants RESTAURANTS sl profile = []"
  from recommend_fallback[OF assms this]
  show "\<exists>rec. recommendRestaurants RESTAURANTS sl profile prev = Some rec
               \<and> restaurant (topPick rec) \<in> set RESTAURANTS
               \<and> (\<forall>r\<in>set RESTAURANTS. scoreRestaurant r sl profile
                     \<le> scoreRestaurant (restaurant (topPick rec)) sl profile)
               \<and> alternatives rec = []" .
next
  assume f: "filterByArea RESTAURANTS req = []"
  from getTop_fallback[OF assms f] obtain t where
    t: "top_t (getTopRestaurants RESTAURANTS req) = Some t"
       "t # alternatives_t (getTopRestaurants RESTAURANTS req)
          = take 3 (sort_key (\<lambda>r. - rating r) RESTAURANTS)" by blast
  from getTop_never_none[OF assms, of req] t(1) have tin: "t \<in> set RESTAURANTS" by simp
  note top3 = top3_highest_rated[of RESTAURANTS, folded t(2)]
  from top3 t(1) tin
  show "\<exists>t. top_t (getTopRestaurants RESTAURANTS req) = Some t
               \<and> t \<in> set RESTAURANTS
               \<and> length (t # alternatives_t (getTopRestaurants RESTAURANTS req))
                    = min 3 (length RESTAURANTS)
               \<and> mset (t # alternatives_t (getTopRestaurants RESTAURANTS req)) \<subseteq># mset RESTAURANTS
               \<and> sorted_wrt (\<lambda>a b. rating b \<le> rating a)
                    (t # alternatives_t (getTopRestaurants RESTAURANTS req))
               \<and> (\<forall>x\<in>set (t # alternatives_t (getTopRestaurants RESTAURANTS req)).
                    \<forall>y\<in>#(mset RESTAURANTS
                            - mset (t # alternatives_t (getTopRestaurants RESTAURANTS req))).
                      rating y \<le> rating x)"
    by (intro exI[of _ t]) blast
next
  from recommend_never_none[OF assms]
  show "\<exists>rec. recommendRestaurants RESTAURANTS sl profile prev = Some rec
               \<and> restaurant (topPick rec) \<in> set RESTAURANTS" .
next
  from getTop_never_none[OF assms]
  show "\<exists>t. top_t (getTopRestaurants RESTAURANTS req) = Some t \<and> t \<in> set RESTAURANTS" .
qed

theorem C5_witness:
  "[exShack, exBistro] \<noteq> []
   \<and> filterRestaurants [exShack, exBistro] (emptySlots\<lparr>area := Some ''Nowhere''\<rparr>) emptyProfile = []
   \<and> (\<exists>rec. recommendRestaurants [exShack, exBistro] (emptySlots\<lparr>area := Some ''Nowhere''\<rparr>)
               emptyProfile None = Some rec
            \<and> restaurant (topPick rec) = exBistro \<and> alternatives rec = [])
   \<and> filterByArea [exShack, exBistro] (emptyRequest\<lparr>area_q := Some ''Nowhere''\<rparr>) = []
   \<and> top_t (getTopRestaurants [exShack, exBistro] (emptyRequest\<lparr>area_q := Some ''Nowhere''\<rparr>))
       = Some exBistro"
proof -
  let ?sl = "emptySlots\<lparr>area := Some ''Nowhere''\<rparr>"
  let ?rq = "emptyRequest\<lparr>area_q := Some ''Nowhere''\<rparr>"
  have ne: "[exShack, exBistro] \<noteq> []" by simp
  have f1: "filterRestaurants [exShack, exBistro] ?sl emptyProfile = []" by code_simp
  have f2: "filterByArea [exShack, exBistro] ?rq = []" by code_simp
  have sB: "scoreRestaurant exBistro ?sl emptyProfile = 9/4" by code_simp
  have sS: "scoreRestaurant exShack ?sl emptyProfile = 2" by code_simp
  have neq: "exShack \<noteq> exBistro" by (simp add: exShack_def exBistro_def)
  have rB: "rating exBistro = 9/2" and rS: "rating exShack = 4"
    by (simp_all add: exShack_def exBistro_def)
  note c5 = C5_fallback_never_empty[OF ne, of ?sl emptyProfile None ?rq]
  from c5 f1 obtain rec where rec:
    "recommendRestaurants [exShack, exBistro] ?sl emptyProfile None = Some rec"
    "restaurant (topPick rec) \<in> set [exShack, exBistro]"
    "\<forall>r\<in>set [exShack, exBistro]. scoreRestaurant r ?sl emptyProfile
        \<le> scoreRestaurant (restaurant (topPick rec)) ?sl emptyProfile"
    "alternatives rec = []" by blast
  have topB: "restaurant (topPick rec) = exBistro"
  proof (rule ccontr)
    assume "restaurant (topPick rec) \<noteq> exBistro"
    with rec(2) have "restaurant (topPick rec) = exShack" by simp
    with rec(3) have "scoreRestaurant exBistro ?sl emptyProfile \<le> scoreRestaurant exShack ?sl emptyProfile"
      by simp
    with sB sS show False by simp
  qed
  from c5 f2 obtain t where t:
    "top_t (getTopRestaurants [exShack, exBistro] ?rq) = Some t"
    "t \<in> set [exShack, exBistro]"
    "mset (t # alternatives_t (getTopRestaurants [exShack, exBistro] ?rq)) \<subseteq># mset [exShack, exBistro]"
    "length (t # alternatives_t (getTopRestaurants [exShack, exBistro] ?rq)) = min 3 (length [exShack, exBistro])"
    "sorted_wrt (\<lambda>a b. rating b \<le> rating a) (t # alternatives_t (getTopRestaurants [exShack, exBistro] ?rq))"
    by blast
  have tB: "t = exBistro"
  proof (rule ccontr)
    assume n: "t \<noteq> exBistro"
    with t(2) have ts: "t = exShack" by simp
    from t(4) obtain u where u: "alternatives_t (getTopRestaurants [exShack, exBistro] ?rq) = [u]"
      by (cases "alternatives_t (getTopRestaurants [exShack, exBistro] ?rq)") auto
    from t(3) u ts have "mset [exShack, u] \<subseteq># mset [exShack, exBistro]" by simp
    then have "u = exBistro" by (simp add: neq)
    with t(5) u ts have "rating exBistro \<le> rating exShack" by simp
    with rB rS show False by simp
  qed
  from ne f1 f2 rec(1,4) topB t(1) tB show ?thesis by blast
qed

section \<open>Properties of the dialogue controller\<close>

lemma parse_not_command:
  assumes "intent (parseUserMessage msg) \<noteq> Reset" "intent (parseUserMessage msg) \<noteq> ProfileIntent"
  shows "\<not> isCommand ''reset'' (trim (toLowerCase msg)) \<and> \<not> isCommand ''profile'' (trim (toLowerCase msg))"
  using assms by (auto simp: parseUserMessage_def Let_def split: if_splits)

lemma processMessage_turn:
  assumes "\<not> isCommand ''reset'' (trim (toLowerCase msg))" "\<not> isCommand ''profile'' (trim (toLowerCase msg))"
  shows "processMessage env msg ctx prof = map_option (finish env msg) (stateTurn env msg ctx prof)"
  using assms by (simp add: processMessage_def Let_def)

lemma finish_sel [simp]:
  "newContext (finish env msg t) = newContext t"
  "response (finish env msg t) = response t"
  "savedProfile (finish env msg t) = savedProfile t"
  "addedBooking (finish env msg t) = addedBooking t"
  by (simp_all add: finish_def)

lemma finish_messages:
  "messages (finish env msg t) = history env
     @ [\<lparr>id_m = ''msg-'' @ showNat (now env) @ ''-user'', role = User,
         text_m = msg, ts = now env\<rparr>,
        \<lparr>id_m = ''msg-'' @ showNat (now env) @ ''-assistant'', role = Assistant,
         text_m = response t, ts = now env\<rparr>]"
  by (simp add: finish_def)

lemma reply_sel [simp]:
  "newContext (reply c s) = c"
  "response (reply c s) = s"
  "savedProfile (reply c s) = None"
  "addedBooking (reply c s) = None"
  by (simp_all add: reply_def)

lemma showRecommendations_saved:
  "showRecommendations env ctx prof = Some t \<Longrightarrow> savedProfile t = None"
  by (auto simp: showRecommendations_def Let_def split: option.splits)

lemma askNext_saved [simp]: "savedProfile (askNext ctx prof) = None"
  by (simp add: askNext_def Let_def)

lemma welcomeTurn_saved:
  "welcomeTurn env msg ctx prof = Some t \<Longrightarrow> savedProfile t = None"
  by (auto simp: welcomeTurn_def Let_def dest: showRecommendations_saved split: if_splits)

lemma discoveryTurn_saved:
  "discoveryTurn env msg ctx prof = Some t \<Longrightarrow> savedProfile t = None"
  by (auto simp: discoveryTurn_def Let_def dest: showRecommendations_saved split: if_splits)

lemma recommendTurn_saved:
  "recommendTurn env parsed ctx prof = Some t \<Longrightarrow> savedProfile t = None"
  by (auto simp: recommendTurn_def Let_def split: if_splits option.splits)

lemma refineAsk_saved [simp]: "savedProfile (refineAsk lead ctx prof) = None"
  by (simp add: refineAsk_def Let_def)

lemma refineTurn_saved:
  "refineTurn env msg ctx prof = Some t \<Longrightarrow> savedProfile t = None"
  by (auto simp: refineTurn_def Let_def split: if_splits option.splits)

lemma bookingCollectTurn_saved [simp]:
  "savedProfile (bookingCollectTurn env msg ctx) = None"
  by (simp add: bookingCollectTurn_def Let_def split: option.splits)

lemma bookingConfirmTurn_saved:
  assumes "savedProfile (bookingConfirmTurn env parsed ctx prof) = Some p"
  shows "intent parsed = Confirm \<and>
         (\<exists>d rst. bookingDraft ctx = Some d \<and> truthyStr (date d) \<and> truthyStr (time d)
            \<and> truthyNum (partySize_d d)
            \<and> findRestaurant (catalog env) (restaurantId d) = Some rst
            \<and> p = updateProfile rst prof)"
  using assms
  by (auto simp: bookingConfirmTurn_def Let_def split: if_splits option.splits)

lemma map_of_recordSet: "map_of (recordSet k v rec) = (map_of rec)(k \<mapsto> v)"
  by (induction rec) (auto simp: fun_eq_iff)

lemma keys_recordSet: "fst ` set (recordSet k v rec) = insert k (fst ` set rec)"
proof (induction rec)
  case Nil
  show ?case by simp
next
  case (Cons p ps)
  obtain k' v' where p: "p = (k', v')" by (cases p)
  show ?case using Cons unfolding p by (cases "k' = k") auto
qed

lemma likeCount_bump:
  "likeCount (bump rec k) k' = likeCount rec k' + (if k' = k then 1 else 0)"
  by (simp add: likeCount_def bump_def map_of_recordSet)

lemma keys_bump: "fst ` set (bump rec k) = insert k (fst ` set rec)"
  by (simp add: bump_def keys_recordSet)

lemma likeCount_foldl_bump:
  "likeCount (foldl bump rec ks) k = likeCount rec k + int (count_list ks k)"
  by (induction ks arbitrary: rec) (simp_all add: likeCount_bump)

lemma keys_foldl_bump: "fst ` set (foldl bump rec ks) = fst ` set rec \<union> set ks"
  by (induction ks arbitrary: rec) (auto simp: keys_bump)

lemma likeCount_foldl_vibe:
  "likeCount (foldl (\<lambda>acc v. case slotVibeOf v of None \<Rightarrow> acc | Some sv \<Rightarrow> bump acc sv) rec vs) k
     = likeCount rec k + int (length (filter (\<lambda>v. slotVibeOf v = Some k) vs))"
  by (induction vs arbitrary: rec) (auto simp: likeCount_bump split: option.splits)

lemma keys_foldl_vibe:
  "fst ` set rec \<subseteq> fst ` set (foldl (\<lambda>acc v. case slotVibeOf v of None \<Rightarrow> acc | Some sv \<Rightarrow> bump acc sv) rec vs)"
proof (induction vs arbitrary: rec)
  case Nil
  show ?case by simp
next
  case (Cons v vs)
  show ?case
  proof (cases "slotVibeOf v")
    case None
    then show ?thesis using Cons by simp
  next
    case (Some sv)
    have "fst ` set rec \<subseteq> fst ` set (bump rec sv)" by (auto simp: keys_bump)
    also have "\<dots> \<subseteq> fst ` set (foldl (\<lambda>acc v. case slotVibeOf v of None \<Rightarrow> acc | Some sv \<Rightarrow> bump acc sv) (bump rec sv) vs)"
      by (rule Cons)
    finally show ?thesis using Some by simp
  qed
qed

lemma updateProfile_effect:
  "likeCount (cuisinesLiked (updateProfile rst prof)) k
      = likeCount (cuisinesLiked prof) k + int (count_list (cuisines rst) k)"
  "likeCount (vibePrefs (updateProfile rst prof)) k
      = likeCount (vibePrefs prof) k + int (length (filter (\<lambda>v. slotVibeOf v = Some k) (vibe_r rst)))"
  "lastArea (updateProfile rst prof) = Some (area_r rst)"
  "budgetDefault (updateProfile rst prof) = budgetDefault prof"
  "dietary_p (updateProfile rst prof) = dietary_p prof"
  "fst ` set (cuisinesLiked prof) \<subseteq> fst ` set (cuisinesLiked (updateProfile rst prof))"
  "fst ` set (vibePrefs prof) \<subseteq> fst ` set (vibePrefs (updateProfile rst prof))"
  by (simp_all add: updateProfile_def Let_def likeCount_foldl_bump likeCount_foldl_vibe
      keys_foldl_bump keys_foldl_vibe)

lemma stateTurn_saved:
  assumes "stateTurn env msg ctx prof = Some t" "savedProfile t = Some p"
  shows "state ctx = BOOKING_CONFIRM \<and> intent (parseUserMessage msg) = Confirm \<and>
         (\<exists>d rst. bookingDraft ctx = Some d \<and> truthyStr (date d) \<and> truthyStr (time d)
            \<and> truthyNum (partySize_d d)
            \<and> findRestaurant (catalog env) (restaurantId d) = Some rst
            \<and> p = updateProfile rst prof)"
proof (cases "state ctx")
  case WELCOME
  with assms show ?thesis by (auto simp: stateTurn_def Let_def dest: welcomeTurn_saved)
next
  case DISCOVERY
  with assms show ?thesis by (auto simp: stateTurn_def Let_def dest: discoveryTurn_saved)
next
  case RECOMMEND
  with assms show ?thesis by (auto simp: stateTurn_def Let_def dest: recommendTurn_saved)
next
  case BOOKING_COLLECT
  with assms show ?thesis by (auto simp: stateTurn_def Let_def)
next
  case BOOKING_CONFIRM
  with assms have "savedProfile (bookingConfirmTurn env (parseUserMessage msg) ctx prof) = Some p"
    by (auto simp: stateTurn_def Let_def)
  from bookingConfirmTurn_saved[OF this] BOOKING_CONFIRM show ?thesis by simp
next
  case REFINE
  with assms show ?thesis by (auto simp: stateTurn_def Let_def dest: refineTurn_saved)
qed

lemma processMessage_saved:
  assumes "processMessage env msg ctx prof = Some r" "savedProfile r = Some p"
  shows "state ctx = BOOKING_CONFIRM \<and> intent (parseUserMessage msg) = Confirm \<and>
         (\<exists>d rst. bookingDraft ctx = Some d \<and> truthyStr (date d) \<and> truthyStr (time d)
            \<and> truthyNum (partySize_d d)
            \<and> findRestaurant (catalog env) (restaurantId d) = Some rst
            \<and> p = updateProfile rst prof)"
proof -
  from assms obtain t where t: "stateTurn env msg ctx prof = Some t" "r = finish env msg t"
    by (auto simp: processMessage_def Let_def split: if_splits)
  with assms(2) have "savedProfile t = Some p" by simp
  from stateTurn_saved[OF t(1) this] show ?thesis .
qed

lemma confirm_saves:
  assumes "processMessage env msg ctx prof = Some r"
    and "state ctx = BOOKING_CONFIRM" "intent (parseUserMessage msg) = Confirm"
    and "bookingDraft ctx = Some d" "truthyStr (date d)" "truthyStr (time d)" "truthyNum (partySize_d d)"
    and "findRestaurant (catalog env) (restaurantId d) = Some rst"
  shows "savedProfile r = Some (updateProfile rst prof)"
proof -
  from assms(3) have nc: "\<not> isCommand ''reset'' (trim (toLowerCase msg))"
     "\<not> isCommand ''profile'' (trim (toLowerCase msg))"
    using parse_not_command[of msg] by auto
  from assms(5,6,7) obtain dt tm ps where v: "date d = Some dt" "dt \<noteq> []" "time d = Some tm" "tm \<noteq> []"
      "partySize_d d = Some ps" "ps \<noteq> 0"
    by (cases "date d"; cases "time d"; cases "partySize_d d") auto
  have "savedProfile (bookingConfirmTurn env (parseUserMessage msg) ctx prof) = Some (updateProfile rst prof)"
    using assms(3,4,8) v by (simp add: bookingConfirmTurn_def Let_def)
  then show ?thesis using assms(1,2) nc
    by (auto simp: processMessage_turn stateTurn_def Let_def)
qed

text \<open>
  C9 (amended). A turn writes the profile only in BOOKING\_CONFIRM on the intent confirm, and
  it does so exactly when the draft is complete and its restaurant is in the catalog. The
  saved profile is the given one with every cuisine counter raised by the number of times
  the cuisine occurs in the booked restaurant's cuisine list, every vibe-category counter
  raised by the number of the restaurant's vibe tags that map to the category, and
  \<open>lastArea\<close> set to the restaurant's area; the other fields are kept. No turn lowers or
  removes a counter. The stored profile is taken to be the one the caller passes in.
\<close>

theorem C9_profile_mutation:
  assumes "processMessage env msg ctx prof = Some r"
  shows "(savedProfile r \<noteq> None \<longrightarrow>
            state ctx = BOOKING_CONFIRM \<and> intent (parseUserMessage msg) = Confirm)
       \<and> (\<forall>p. savedProfile r = Some p \<longrightarrow>
            (\<exists>d rst. bookingDraft ctx = Some d
               \<and> findRestaurant (catalog env) (restaurantId d) = Some rst
               \<and> (\<forall>k. likeCount (cuisinesLiked p) k
                        = likeCount (cuisinesLiked prof) k + int (count_list (cuisines rst) k))
               \<and> (\<forall>k. likeCount (vibePrefs p) k
                        = likeCount (vibePrefs prof) k
                          + int (length (filter (\<lambda>v. slotVibeOf v = Some k) (vibe_r rst))))
               \<and> lastArea p = Some (area_r rst)
               \<and> budgetDefault p = budgetDefault prof \<and> dietary_p p = dietary_p prof))
       \<and> (\<forall>d rst. state ctx = BOOKING_CONFIRM \<and> intent (parseUserMessage msg) = Confirm
              \<and> bookingDraft ctx = Some d \<and> truthyStr (date d) \<and> truthyStr (time d)
              \<and> truthyNum (partySize_d d)
              \<and> findRestaurant (catalog env) (restaurantId d) = Some rst
            \<longrightarrow> savedProfile r = Some (updateProfile rst prof))
       \<and> (\<forall>k. likeCount (cuisinesLiked prof) k \<le> likeCount (cuisinesLiked (persistedProfile prof r)) k)
       \<and> (\<forall>k. likeCount (vibePrefs prof) k \<le> likeCount (vibePrefs (persistedProfile prof r)) k)
       \<and> fst ` set (cuisinesLiked prof) \<subseteq> fst ` set (cuisinesLiked (persistedProfile prof r))
       \<and> fst ` set (vibePrefs prof) \<subseteq> fst ` set (vibePrefs (persistedProfile prof r))"
proof -
  have a: "savedProfile r \<noteq> None \<longrightarrow>
            state ctx = BOOKING_CONFIRM \<and> intent (parseUserMessage msg) = Confirm"
    using processMessage_saved[OF assms] by auto
  have b: "\<forall>p. savedProfile r = Some p \<longrightarrow>
            (\<exists>d rst. bookingDraft ctx = Some d
               \<and> findRestaurant (catalog env) (restaurantId d) = Some rst
               \<and> (\<forall>k. likeCount (cuisinesLiked p) k
                        = likeCount (cuisinesLiked prof) k + int (count_list (cuisines rst) k))
               \<and> (\<forall>k. likeCount (vibePrefs p) k
                        = likeCount (vibePrefs prof) k
                          + int (length (filter (\<lambda>v. slotVibeOf v = Some k) (vibe_r rst))))
               \<and> lastArea p = Some (area_r rst)
               \<and> budgetDefault p = budgetDefault prof \<and> dietary_p p = dietary_p prof)"
  proof (intro allI impI)
    fix p assume "savedProfile r = Some p"
    from processMessage_saved[OF assms this] obtain d rst where
      "bookingDraft ctx = Some d" "findRestaurant (catalog env) (restaurantId d) = Some rst"
      "p = updateProfile rst prof" by blast
    then show "\<exists>d rst. bookingDraft ctx = Some d
               \<and> findRestaurant (catalog env) (restaurantId d) = Some rst
               \<and> (\<forall>k. likeCount (cuisinesLiked p) k
                        = likeCount (cuisinesLiked prof) k + int (count_list (cuisines rst) k))
               \<and> (\<forall>k. likeCount (vibePrefs p) k
                        = likeCount (vibePrefs prof) k
                          + int (length (filter (\<lambda>v. slotVibeOf v = Some k) (vibe_r rst))))
               \<and> lastArea p = Some (area_r rst)
               \<and> budgetDefault p = budgetDefault prof \<and> dietary_p p = dietary_p prof"
      by (intro exI[of _ d] exI[of _ rst]) (simp add: updateProfile_effect)
  qed
  have c: "\<forall>d rst. state ctx = BOOKING_CONFIRM \<and> intent (parseUserMessage msg) = Confirm
              \<and> bookingDraft ctx = Some d \<and> truthyStr (date d) \<and> truthyStr (time d)
              \<and> truthyNum (partySize_d d)
              \<and> findRestaurant (catalog env) (restaurantId d) = Some rst
            \<longrightarrow> savedProfile r = Some (updateProfile rst prof)"
    using confirm_saves[OF assms] by blast
  have pp: "persistedProfile prof r = prof \<or> (\<exists>rst. persistedProfile prof r = updateProfile rst prof)"
  proof (cases "savedProfile r")
    case None
    then show ?thesis by (simp add: persistedProfile_def)
  next
    case (Some p)
    from processMessage_saved[OF assms this] Some show ?thesis
      by (auto simp: persistedProfile_def)
  qed
  have d1: "\<forall>k. likeCount (cuisinesLiked prof) k \<le> likeCount (cuisinesLiked (persistedProfile prof r)) k"
    using pp by (auto simp: updateProfile_effect(1))
  have d2: "\<forall>k. likeCount (vibePrefs prof) k \<le> likeCount (vibePrefs (persistedProfile prof r)) k"
    using pp by (auto simp: updateProfile_effect(2))
  have e1: "fst ` set (cuisinesLiked prof) \<subseteq> fst ` set (cuisinesLiked (persistedProfile prof r))"
  proof -
    from pp show ?thesis
    proof
      assume "persistedProfile prof r = prof"
      then show ?thesis by simp
    next
      assume "\<exists>rst. persistedProfile prof r = updateProfile rst prof"
      then obtain rst where "persistedProfile prof r = updateProfile rst prof" ..
      then show ?thesis by (simp only: updateProfile_effect(6))
    qed
  qed
  have e2: "fst ` set (vibePrefs prof) \<subseteq> fst ` set (vibePrefs (persistedProfile prof r))"
  proof -
    from pp show ?thesis
    proof
      assume "persistedProfile prof r = prof"
      then show ?thesis by simp
    next
      assume "\<exists>rst. persistedProfile prof r = updateProfile rst prof"
      then obtain rst where "persistedProfile prof r = updateProfile rst prof" ..
      then show ?thesis by (simp only: updateProfile_effect(7))
    qed
  qed
  from a b c d1 d2 e1 e2 show ?thesis by blast
qed

theorem C9_witness:
  "\<exists>r. processMessage exEnv ''confirm'' exConfirmContext emptyProfile = Some r
     \<and> savedProfile r = Some (updateProfile exBistro emptyProfile)
     \<and> likeCount (cuisinesLiked (persistedProfile emptyProfile r)) ''Italian'' = 1
     \<and> lastArea (persistedProfile emptyProfile r) = Some ''Hamra''"
proof -
  have ne: "processMessage exEnv ''confirm'' exConfirmContext emptyProfile \<noteq> None" by code_simp
  then obtain r where r: "processMessage exEnv ''confirm'' exConfirmContext emptyProfile = Some r"
    by auto
  have st: "state exConfirmContext = BOOKING_CONFIRM" by (simp add: exConfirmContext_def)
  have i: "intent (parseUserMessage ''confirm'') = Confirm" by code_simp
  have d: "bookingDraft exConfirmContext = Some \<lparr>restaurantId = Some ''r1'', date = Some ''2025-01-01'',
        time = Some ''19:00'', partySize_d = Some 2, notes_d = Some []\<rparr>"
    by (simp add: exConfirmContext_def)
  have f: "findRestaurant (catalog exEnv) (Some ''r1'') = Some exBistro" by code_simp
  note c9 = C9_profile_mutation[OF r]
  from c9 st i d f have s: "savedProfile r = Some (updateProfile exBistro emptyProfile)" by simp
  then have pp: "persistedProfile emptyProfile r = updateProfile exBistro emptyProfile"
    by (simp add: persistedProfile_def)
  have l: "likeCount (cuisinesLiked (updateProfile exBistro emptyProfile)) ''Italian'' = 1" by code_simp
  have a: "lastArea (updateProfile exBistro emptyProfile) = Some ''Hamra''" by code_simp
  from r s pp l a show ?thesis by simp
qed

text \<open>
  C9 (as stated, refuted). Booking a restaurant whose vibe tags \<open>romantic\<close> and \<open>intimate\<close>
  both map to the category romantic raises that counter from 0 to 2, not by 1.
\<close>

theorem C9_counterexample:
  "map_option (\<lambda>r. map_option (\<lambda>p. likeCount (vibePrefs p) ''romantic'') (savedProfile r))
      (processMessage exEnv ''confirm'' exConfirmContext emptyProfile) = Some (Some 2)
   \<and> likeCount (vibePrefs emptyProfile) ''romantic'' = 0
   \<and> findRestaurant (catalog exEnv) (Some ''r1'') = Some exBistro
   \<and> vibe_r exBistro = [''romantic'', ''intimate'']"
  by code_simp

lemma mergeSlots_fields:
  "area (mergeSlots a b) = (case area b of Some v \<Rightarrow> Some v | None \<Rightarrow> area a)"
  "mealTime (mergeSlots a b) = (case mealTime b of Some v \<Rightarrow> Some v | None \<Rightarrow> mealTime a)"
  "partySize (mergeSlots a b) = (case partySize b of Some v \<Rightarrow> Some v | None \<Rightarrow> partySize a)"
  "budget (mergeSlots a b) = (case budget b of Some v \<Rightarrow> Some v | None \<Rightarrow> budget a)"
  "cravingCuisines (mergeSlots a b) = (case cravingCuisines b of Some v \<Rightarrow> Some v | None \<Rightarrow> cravingCuisines a)"
  "vibe (mergeSlots a b) = (case vibe b of Some v \<Rightarrow> Some v | None \<Rightarrow> vibe a)"
  "dietary (mergeSlots a b) = (case dietary b of Some v \<Rightarrow> Some v | None \<Rightarrow> dietary a)"
  "avoid (mergeSlots a b) = (case avoid b of Some v \<Rightarrow> Some v | None \<Rightarrow> avoid a)"
  by (simp_all add: mergeSlots_def)

lemma showRecommendations_slots:
  "showRecommendations env ctx prof = Some t \<Longrightarrow> slots (newContext t) = slots ctx"
  by (auto simp: showRecommendations_def Let_def split: option.splits)

lemma askNext_slots [simp]: "slots (newContext (askNext ctx prof)) = slots ctx"
  by (simp add: askNext_def Let_def)

lemma welcomeTurn_slots:
  assumes "welcomeTurn env msg ctx prof = Some t"
  shows "slots (newContext t) = mergeExtraction (slots ctx) (extractSlots env msg (slots ctx) None None)"
  using assms
  by (auto simp: welcomeTurn_def Let_def dest!: showRecommendations_slots split: if_splits)

lemma discoveryTurn_slots:
  assumes "discoveryTurn env msg ctx prof = Some t" "\<not> canRecommend (slots ctx) prof"
  shows "slots (newContext t) = mergeExtraction (slots ctx)
           (extractSlots env msg (slots ctx) (lastQuestion ctx) (lastQuestionType ctx))"
  using assms
  by (auto simp: discoveryTurn_def Let_def dest!: showRecommendations_slots split: if_splits)

text \<open>
  C3 (amended). In a WELCOME turn, and in a DISCOVERY turn that starts with the completion
  predicate false, the slots after the turn are the object spread of the current slots and
  the extraction result: a slot the extraction carries takes the extraction's value, also
  over a value that was set before, and a slot the extraction does not carry (or any slot,
  when the call fails) keeps its previous value.
\<close>

theorem C3_merge:
  assumes run: "processMessage env msg ctx prof = Some r"
    and st: "state ctx = WELCOME \<or> (state ctx = DISCOVERY \<and> \<not> canRecommend (slots ctx) prof)"
    and nc: "\<not> isCommand ''reset'' (trim (toLowerCase msg))"
            "\<not> isCommand ''profile'' (trim (toLowerCase msg))"
  shows "slots (newContext r) = mergeExtraction (slots ctx) (turnExtraction env msg ctx)
     \<and> area (slots (newContext r))
          = (case carried (turnExtraction env msg ctx) area of Some v \<Rightarrow> Some v | None \<Rightarrow> area (slots ctx))
     \<and> mealTime (slots (newContext r))
          = (case carried (turnExtraction env msg ctx) mealTime of Some v \<Rightarrow> Some v | None \<Rightarrow> mealTime (slots ctx))
     \<and> partySize (slots (newContext r))
          = (case carried (turnExtraction env msg ctx) partySize of Some v \<Rightarrow> Some v | None \<Rightarrow> partySize (slots ctx))
     \<and> budget (slots (newContext r))
          = (case carried (turnExtraction env msg ctx) budget of Some v \<Rightarrow> Some v | None \<Rightarrow> budget (slots ctx))
     \<and> cravingCuisines (slots (newContext r))
          = (case carried (turnExtraction env msg ctx) cravingCuisines of Some v \<Rightarrow> Some v
             | None \<Rightarrow> cravingCuisines (slots ctx))
     \<and> vibe (slots (newContext r))
          = (case carried (turnExtraction env msg ctx) vibe of Some v \<Rightarrow> Some v | None \<Rightarrow> vibe (slots ctx))
     \<and> dietary (slots (newContext r))
          = (case carried (turnExtraction env msg ctx) dietary of Some v \<Rightarrow> Some v | None \<Rightarrow> dietary (slots ctx))
     \<and> avoid (slots (newContext r))
          = (case carried (turnExtraction env msg ctx) avoid of Some v \<Rightarrow> Some v | None \<Rightarrow> avoid (slots ctx))"
proof -
  from run nc obtain t where t: "stateTurn env msg ctx prof = Some t" "r = finish env msg t"
    by (auto simp: processMessage_turn)
  have m: "slots (newContext t) = mergeExtraction (slots ctx) (turnExtraction env msg ctx)"
    using st
  proof
    assume w: "state ctx = WELCOME"
    with t(1) have "welcomeTurn env msg ctx prof = Some t" by (simp add: stateTurn_def Let_def)
    from welcomeTurn_slots[OF this] w show ?thesis by (simp add: turnExtraction_def)
  next
    assume d: "state ctx = DISCOVERY \<and> \<not> canRecommend (slots ctx) prof"
    with t(1) have "discoveryTurn env msg ctx prof = Some t" by (simp add: stateTurn_def Let_def)
    from discoveryTurn_slots[OF this] d show ?thesis by (simp add: turnExtraction_def)
  qed
  then have m': "slots (newContext r) = mergeExtraction (slots ctx) (turnExtraction env msg ctx)"
    using t(2) by simp
  show ?thesis
    unfolding m'
    by (cases "turnExtraction env msg ctx")
       (simp_all add: mergeExtraction_def carried_def mergeSlots_fields split: option.splits)
qed

text \<open>
  C3 (as stated, refuted). In DISCOVERY with the area set to Hamra, an extraction result
  that carries the area Gemmayze replaces it.
\<close>

theorem C3_counterexample:
  "area (slots exDiscoveryContext) = Some ''Hamra''
   \<and> state exDiscoveryContext = DISCOVERY
   \<and> map_option (\<lambda>r. area (slots (newContext r)))
        (processMessage exAreaEnv ''4 of us, near Gemmayze'' exDiscoveryContext emptyProfile)
       = Some (Some ''Gemmayze'')"
  by code_simp

theorem C3_witness:
  "\<exists>r. processMessage exAreaEnv ''4 of us, near Gemmayze'' exDiscoveryContext emptyProfile = Some r
     \<and> area (slots (newContext r)) = Some ''Gemmayze''
     \<and> partySize (slots (newContext r)) = Some 4
     \<and> budget (slots (newContext r)) = None"
proof -
  have ne: "processMessage exAreaEnv ''4 of us, near Gemmayze'' exDiscoveryContext emptyProfile \<noteq> None"
    by code_simp
  then obtain r where r:
    "processMessage exAreaEnv ''4 of us, near Gemmayze'' exDiscoveryContext emptyProfile = Some r"
    by auto
  have st: "state exDiscoveryContext = WELCOME
      \<or> (state exDiscoveryContext = DISCOVERY \<and> \<not> canRecommend (slots exDiscoveryContext) emptyProfile)"
    by code_simp
  have nc: "\<not> isCommand ''reset'' (trim (toLowerCase ''4 of us, near Gemmayze''))"
           "\<not> isCommand ''profile'' (trim (toLowerCase ''4 of us, near Gemmayze''))"
    by code_simp+
  have ex: "turnExtraction exAreaEnv ''4 of us, near Gemmayze'' exDiscoveryContext
      = Some \<lparr>slots_x = emptySlots\<lparr>area := Some ''Gemmayze'', partySize := Some 4\<rparr>, confidence = 9/10\<rparr>"
    by (simp add: turnExtraction_def exAreaEnv_def exDiscoveryContext_def)
  have sl: "budget (slots exDiscoveryContext) = None"
    by (simp add: exDiscoveryContext_def emptySlots_def)
  from C3_merge[OF r st nc, THEN conjunct2] ex sl r show ?thesis
    by (simp add: carried_def emptySlots_def)
qed

lemma digitVal_lits:
  "digitVal CHR ''1'' = 1" "digitVal CHR ''2'' = 2" "digitVal CHR ''3'' = 3"
  by (simp_all add: digitVal_def)

lemma optionMatch_pos: "optionMatch lower = Some n \<Longrightarrow> n \<noteq> 0"
  by (auto simp: optionMatch_def digitVal_lits split: list.splits if_splits)

lemma bookMatch_pos: "bookMatch lower = Some n \<Longrightarrow> n \<noteq> 0"
  by (auto simp: bookMatch_def Let_def digitVal_lits split: if_splits)

lemma parseKeywords_intent:
  "intent (parseKeywords lower) \<noteq> SelectOption" "intent (parseKeywords lower) \<noteq> BookOption"
  "optionNumber (parseKeywords lower) = None"
  by (simp_all add: parseKeywords_def Let_def)

lemma parse_select_option:
  assumes "intent (parseUserMessage msg) = SelectOption"
  shows "truthyOption (optionNumber (parseUserMessage msg))"
  using assms
  by (auto simp: parseUserMessage_def Let_def truthyOption_def parseKeywords_intent
      dest: optionMatch_pos split: if_splits option.splits)

lemma parse_book_option:
  assumes "intent (parseUserMessage msg) = BookOption"
  shows "truthyOption (optionNumber (parseUserMessage msg))"
  using assms
  by (auto simp: parseUserMessage_def Let_def truthyOption_def parseKeywords_intent
      dest: bookMatch_pos split: if_splits option.splits)

lemma processMessage_by_intent:
  assumes "intent (parseUserMessage msg) \<noteq> Reset" "intent (parseUserMessage msg) \<noteq> ProfileIntent"
  shows "processMessage env msg ctx prof = map_option (finish env msg) (stateTurn env msg ctx prof)"
  using parse_not_command[OF assms] by (simp add: processMessage_turn)

lemma finish_eq:
  "finish env msg t = r \<Longrightarrow>
     newContext r = newContext t \<and> response r = response t \<and> savedProfile r = savedProfile t
     \<and> addedBooking r = addedBooking t"
  by auto

text \<open>
  C4 (amended). A message that is not the reset or the profile command (these are handled
  before the state machine: reset returns the fresh context, profile replies with the
  profile summary) and that is, in BOOKING\_CONFIRM, of an intent other than confirm and
  change, or, in RECOMMEND, a selection or a booking of an option number with no mapped
  restaurant, gets the fixed re-prompt of the branch. The context (state, slots, booking
  draft and the rest) is returned unchanged, so the state machine does not advance. No
  profile and no booking are written; the one write to storage is the history, which
  gains the user message and the re-prompt.
\<close>

theorem C4_invalid_commands:
  "(state ctx = BOOKING_CONFIRM
      \<and> intent (parseUserMessage msg) \<notin> {Confirm, Change, Reset, ProfileIntent}
     \<longrightarrow> (\<exists>r. processMessage env msg ctx prof = Some r \<and> newContext r = ctx
              \<and> response r = confirmReprompt \<and> savedProfile r = None \<and> addedBooking r = None
              \<and> messages r = history env
                   @ [\<lparr>id_m = ''msg-'' @ showNat (now env) @ ''-user'', role = User,
                       text_m = msg, ts = now env\<rparr>,
                      \<lparr>id_m = ''msg-'' @ showNat (now env) @ ''-assistant'', role = Assistant,
                       text_m = confirmReprompt, ts = now env\<rparr>]))
   \<and> (state ctx = RECOMMEND \<and> intent (parseUserMessage msg) = SelectOption
        \<and> selectedRestaurant ctx (optionOf (parseUserMessage msg)) = None
     \<longrightarrow> (\<exists>r. processMessage env msg ctx prof = Some r \<and> newContext r = ctx
              \<and> response r = selectReprompt \<and> savedProfile r = None \<and> addedBooking r = None
              \<and> messages r = history env
                   @ [\<lparr>id_m = ''msg-'' @ showNat (now env) @ ''-user'', role = User,
                       text_m = msg, ts = now env\<rparr>,
                      \<lparr>id_m = ''msg-'' @ showNat (now env) @ ''-assistant'', role = Assistant,
                       text_m = selectReprompt, ts = now env\<rparr>]))
   \<and> (state ctx = RECOMMEND \<and> intent (parseUserMessage msg) = BookOption
        \<and> selectedRestaurant ctx (optionOf (parseUserMessage msg)) = None
     \<longrightarrow> (\<exists>r. processMessage env msg ctx prof = Some r \<and> newContext r = ctx
              \<and> response r = bookReprompt \<and> savedProfile r = None \<and> addedBooking r = None
              \<and> messages r = history env
                   @ [\<lparr>id_m = ''msg-'' @ showNat (now env) @ ''-user'', role = User,
                       text_m = msg, ts = now env\<rparr>,
                      \<lparr>id_m = ''msg-'' @ showNat (now env) @ ''-assistant'', role = Assistant,
                       text_m = bookReprompt, ts = now env\<rparr>]))"
proof (intro conjI impI)
  assume h: "state ctx = BOOKING_CONFIRM
      \<and> intent (parseUserMessage msg) \<notin> {Confirm, Change, Reset, ProfileIntent}"
  then have pm: "processMessage env msg ctx prof
      = Some (finish env msg (bookingConfirmTurn env (parseUserMessage msg) ctx prof))"
    by (simp add: processMessage_by_intent stateTurn_def Let_def)
  have bt: "bookingConfirmTurn env (parseUserMessage msg) ctx prof = reply ctx confirmReprompt"
    using h by (simp add: bookingConfirmTurn_def)
  show "\<exists>r. processMessage env msg ctx prof = Some r \<and> newContext r = ctx
              \<and> response r = confirmReprompt \<and> savedProfile r = None \<and> addedBooking r = None
              \<and> messages r = history env
                   @ [\<lparr>id_m = ''msg-'' @ showNat (now env) @ ''-user'', role = User,
                       text_m = msg, ts = now env\<rparr>,
                      \<lparr>id_m = ''msg-'' @ showNat (now env) @ ''-assistant'', role = Assistant,
                       text_m = confirmReprompt, ts = now env\<rparr>]"
    unfolding pm bt by (simp add: finish_messages)
next
  assume h: "state ctx = RECOMMEND \<and> intent (parseUserMessage msg) = SelectOption
        \<and> selectedRestaurant ctx (optionOf (parseUserMessage msg)) = None"
  then have pm: "processMessage env msg ctx prof
      = map_option (finish env msg) (recommendTurn env (parseUserMessage msg) ctx prof)"
    by (simp add: processMessage_by_intent stateTurn_def Let_def)
  have rt: "recommendTurn env (parseUserMessage msg) ctx prof = Some (reply ctx selectReprompt)"
    using h parse_select_option[of msg] by (simp add: recommendTurn_def)
  show "\<exists>r. processMessage env msg ctx prof = Some r \<and> newContext r = ctx
              \<and> response r = selectReprompt \<and> savedProfile r = None \<and> addedBooking r = None
              \<and> messages r = history env
                   @ [\<lparr>id_m = ''msg-'' @ showNat (now env) @ ''-user'', role = User,
                       text_m = msg, ts = now env\<rparr>,
                      \<lparr>id_m = ''msg-'' @ showNat (now env) @ ''-assistant'', role = Assistant,
                       text_m = selectReprompt, ts = now env\<rparr>]"
    unfolding pm rt by (simp add: finish_messages)
next
  assume h: "state ctx = RECOMMEND \<and> intent (parseUserMessage msg) = BookOption
        \<and> selectedRestaurant ctx (optionOf (parseUserMessage msg)) = None"
  then have pm: "processMessage env msg ctx prof
      = map_option (finish env msg) (recommendTurn env (parseUserMessage msg) ctx prof)"
    by (simp add: processMessage_by_intent stateTurn_def Let_def)
  have rt: "recommendTurn env (parseUserMessage msg) ctx prof = Some (reply ctx bookReprompt)"
    using h parse_book_option[of msg] by (simp add: recommendTurn_def)
  show "\<exists>r. processMessage env msg ctx prof = Some r \<and> newContext r = ctx
              \<and> response r = bookReprompt \<and> savedProfile r = None \<and> addedBooking r = None
              \<and> messages r = history env
                   @ [\<lparr>id_m = ''msg-'' @ showNat (now env) @ ''-user'', role = User,
                       text_m = msg, ts = now env\<rparr>,
                      \<lparr>id_m = ''msg-'' @ showNat (now env) @ ''-assistant'', role = Assistant,
                       text_m = bookReprompt, ts = now env\<rparr>]"
    unfolding pm rt by (simp add: finish_messages)
qed

text \<open>
  C4 (as stated, refuted). In BOOKING\_COLLECT with no date in the draft, the message
  \<open>book 1\<close> is taken as the date: the draft changes and the reply is the time question.
  And in BOOKING\_CONFIRM the message \<open>reset\<close>, which is neither confirm nor change, does not
  leave the state as it is: it returns the fresh context, in DISCOVERY and without a draft.
\<close>

theorem C4_counterexample:
  "state exCollectContext = BOOKING_COLLECT
   \<and> intent (parseUserMessage ''book 1'') = BookOption
   \<and> map_option date (bookingDraft exCollectContext) = Some None
   \<and> map_option (\<lambda>r. map_option date (bookingDraft (newContext r)))
        (processMessage exEnv ''book 1'' exCollectContext emptyProfile) = Some (Some (Some ''book 1''))
   \<and> map_option (\<lambda>r. response r = timeQuestion \<and> newContext r \<noteq> exCollectContext)
        (processMessage exEnv ''book 1'' exCollectContext emptyProfile) = Some True
   \<and> state exConfirmContext = BOOKING_CONFIRM
   \<and> intent (parseUserMessage ''reset'') = Reset
   \<and> map_option (\<lambda>r. (state (newContext r), bookingDraft (newContext r),
                        newContext r = exConfirmContext))
        (processMessage exEnv ''reset'' exConfirmContext emptyProfile)
       = Some (DISCOVERY, None, False)"
  by code_simp

theorem C4_witness:
  "state (exConfirmContext) = BOOKING_CONFIRM
   \<and> intent (parseUserMessage ''book 1'') = BookOption
   \<and> (\<exists>r. processMessage exEnv ''book 1'' exConfirmContext emptyProfile = Some r
         \<and> newContext r = exConfirmContext \<and> response r = confirmReprompt
         \<and> map text_m (messages r) = [''book 1'', confirmReprompt])
   \<and> state (exConfirmContext\<lparr>state := RECOMMEND\<rparr>) = RECOMMEND
   \<and> intent (parseUserMessage ''2'') = SelectOption
   \<and> selectedRestaurant (exConfirmContext\<lparr>state := RECOMMEND\<rparr>) (optionOf (parseUserMessage ''2'')) = None
   \<and> (\<exists>r. processMessage exEnv ''2'' (exConfirmContext\<lparr>state := RECOMMEND\<rparr>) emptyProfile = Some r
         \<and> newContext r = exConfirmContext\<lparr>state := RECOMMEND\<rparr> \<and> response r = selectReprompt
         \<and> map text_m (messages r) = [''2'', selectReprompt])
   \<and> intent (parseUserMessage ''book 3'') = BookOption
   \<and> selectedRestaurant (exConfirmContext\<lparr>state := RECOMMEND\<rparr>) (optionOf (parseUserMessage ''book 3'')) = None
   \<and> (\<exists>r. processMessage exEnv ''book 3'' (exConfirmContext\<lparr>state := RECOMMEND\<rparr>) emptyProfile = Some r
         \<and> newContext r = exConfirmContext\<lparr>state := RECOMMEND\<rparr> \<and> response r = bookReprompt
         \<and> map text_m (messages r) = [''book 3'', bookReprompt])"
proof -
  let ?rc = "exConfirmContext\<lparr>state := RECOMMEND\<rparr>"
  have s1: "state exConfirmContext = BOOKING_CONFIRM" by (simp add: exConfirmContext_def)
  have i1: "intent (parseUserMessage ''book 1'') = BookOption" by code_simp
  have s2: "state ?rc = RECOMMEND" by simp
  have i2: "intent (parseUserMessage ''2'') = SelectOption" by code_simp
  have n2: "selectedRestaurant ?rc (optionOf (parseUserMessage ''2'')) = None"
    by (simp add: selectedRestaurant_def exConfirmContext_def)
  have i3: "intent (parseUserMessage ''book 3'') = BookOption" by code_simp
  have n3: "selectedRestaurant ?rc (optionOf (parseUserMessage ''book 3'')) = None"
    by (simp add: selectedRestaurant_def exConfirmContext_def)
  have hs: "history exEnv = []" by (simp add: exEnv_def)
  from C4_invalid_commands[of exConfirmContext "''book 1''" exEnv emptyProfile] s1 i1
  obtain r1 where r1: "processMessage exEnv ''book 1'' exConfirmContext emptyProfile = Some r1"
      "newContext r1 = exConfirmContext" "response r1 = confirmReprompt"
      "messages r1 = history exEnv
         @ [\<lparr>id_m = ''msg-'' @ showNat (now exEnv) @ ''-user'', role = User,
             text_m = ''book 1'', ts = now exEnv\<rparr>,
            \<lparr>id_m = ''msg-'' @ showNat (now exEnv) @ ''-assistant'', role = Assistant,
             text_m = confirmReprompt, ts = now exEnv\<rparr>]"
    by auto
  from r1 hs have a: "\<exists>r. processMessage exEnv ''book 1'' exConfirmContext emptyProfile = Some r
         \<and> newContext r = exConfirmContext \<and> response r = confirmReprompt
         \<and> map text_m (messages r) = [''book 1'', confirmReprompt]" by simp
  from C4_invalid_commands[of ?rc "''2''" exEnv emptyProfile] s2 i2 n2
  obtain r2 where r2: "processMessage exEnv ''2'' ?rc emptyProfile = Some r2"
      "newContext r2 = ?rc" "response r2 = selectReprompt"
      "messages r2 = history exEnv
         @ [\<lparr>id_m = ''msg-'' @ showNat (now exEnv) @ ''-user'', role = User,
             text_m = ''2'', ts = now exEnv\<rparr>,
            \<lparr>id_m = ''msg-'' @ showNat (now exEnv) @ ''-assistant'', role = Assistant,
             text_m = selectReprompt, ts = now exEnv\<rparr>]"
    by auto
  from r2 hs have b: "\<exists>r. processMessage exEnv ''2'' ?rc emptyProfile = Some r
         \<and> newContext r = ?rc \<and> response r = selectReprompt
         \<and> map text_m (messages r) = [''2'', selectReprompt]" by simp
  from C4_invalid_commands[of ?rc "''book 3''" exEnv emptyProfile] s2 i3 n3
  obtain r3 where r3: "processMessage exEnv ''book 3'' ?rc emptyProfile = Some r3"
      "newContext r3 = ?rc" "response r3 = bookReprompt"
      "messages r3 = history exEnv
         @ [\<lparr>id_m = ''msg-'' @ showNat (now exEnv) @ ''-user'', role = User,
             text_m = ''book 3'', ts = now exEnv\<rparr>,
            \<lparr>id_m = ''msg-'' @ showNat (now exEnv) @ ''-assistant'', role = Assistant,
             text_m = bookReprompt, ts = now exEnv\<rparr>]"
    by auto
  from r3 hs have c: "\<exists>r. processMessage exEnv ''book 3'' ?rc emptyProfile = Some r
         \<and> newContext r = ?rc \<and> response r = bookReprompt
         \<and> map text_m (messages r) = [''book 3'', bookReprompt]" by simp
  from s1 i1 a s2 i2 n2 b i3 n3 c show ?thesis by blast
qed

lemma includes_str_append: "includes_str (a @ c @ b) c"
proof -
  have "sublist c (a @ c @ b)" by (auto simp: sublist_def)
  then show ?thesis by (simp add: includes_str_sublist)
qed

text \<open>
  The pick branch of the ActiveRequest flow does what the claim asks for: a walk-in-only
  selection returns the mode to collecting, stores no selected restaurant and shows the
  discount code when there is one.
\<close>

lemma pick_walk_in_only:
  assumes "pickTurn RESTAURANTS userText req Recommending = Some out"
    and "pickMatch (trim (toLowerCase userText)) = Some num"
    and "nthOpt ((case top_t (getTopRestaurants RESTAURANTS req) of None \<Rightarrow> [] | Some t \<Rightarrow> [t])
                  @ alternatives_t (getTopRestaurants RESTAURANTS req)) (num - 1) = Some selected"
    and "\<not> bookingAvailable selected"
  shows "newMode out = Collecting \<and> savedSelectedId out = None
       \<and> (\<forall>code. discountCode selected = Some code \<and> code \<noteq> []
             \<longrightarrow> includes_str (assistantText out) code)"
proof -
  from assms have out: "out = \<lparr>newMode = Collecting, savedSelectedId = None,
       assistantText = walkInText
         @ (case discountCode selected of None \<Rightarrow> []
            | Some code \<Rightarrow> if code \<noteq> [] then
                '' Present this code at the door for a discount: **'' @ code @ ''**'' else [])\<rparr>"
    by (simp add: pickTurn_def Let_def)
  show ?thesis
  proof (intro conjI allI impI)
    show "newMode out = Collecting" using out by simp
    show "savedSelectedId out = None" using out by simp
  next
    fix code assume c: "discountCode selected = Some code \<and> code \<noteq> []"
    have "assistantText out
        = (walkInText @ '' Present this code at the door for a discount: **'') @ code @ ''**''"
      using out c by simp
    then show "includes_str (assistantText out) code"
      by (simp only: includes_str_append)
  qed
qed

lemma pick_example:
  "map_option (\<lambda>out. (newMode out, savedSelectedId out, includes_str (assistantText out) ''WALKIN10''))
     (pickTurn [exShack, exBistro] ''pick #1''
        (emptyRequest\<lparr>area_q := Some ''Gemmayze''\<rparr>) Recommending)
   = Some (Collecting, None, True)"
  by code_simp

text \<open>
  The Slots flow never reads \<open>bookingAvailable\<close>: booking any mapped option starts the
  booking sub-flow.
\<close>

lemma book_option_ignores_flag:
  assumes "state ctx = RECOMMEND" "intent (parseUserMessage msg) = BookOption"
    and "selectedRestaurant ctx (optionOf (parseUserMessage msg)) = Some sel"
  shows "\<exists>r. processMessage env msg ctx prof = Some r
            \<and> state (newContext r) = BOOKING_COLLECT
            \<and> response r = dateQuestion
            \<and> bookingDraft (newContext r)
                = Some \<lparr>restaurantId = Some (id_r sel), date = None, time = None,
                         partySize_d = partySize (slots ctx), notes_d = None\<rparr>"
proof -
  from assms have pm: "processMessage env msg ctx prof
      = map_option (finish env msg) (recommendTurn env (parseUserMessage msg) ctx prof)"
    by (simp add: processMessage_by_intent stateTurn_def Let_def)
  have "recommendTurn env (parseUserMessage msg) ctx prof
      = Some (reply (ctx\<lparr>bookingDraft := Some \<lparr>restaurantId = Some (id_r sel), date = None, time = None,
                                          partySize_d = partySize (slots ctx), notes_d = None\<rparr>,
                    state := BOOKING_COLLECT,
                    lastQuestion := Some dateQuestion,
                    lastQuestionType := None\<rparr>) dateQuestion)"
    using assms parse_book_option[of msg] by (simp add: recommendTurn_def)
  then show ?thesis unfolding pm by simp
qed

text \<open>
  C2 (the code at the failing input). From the initial context, one WELCOME turn leads to
  RECOMMEND with option 1 mapped to a walk-in-only venue that has a discount code; the
  message \<open>book 1\<close> then enters BOOKING\_COLLECT with a draft for that venue, and the reply
  is the date question, without the code. The message \<open>1\<close> instead stays in RECOMMEND, and
  its reply does not show the code either.
\<close>

theorem C2_walk_in_enters_booking:
  "map_option (\<lambda>r. (state (newContext r), selectedRestaurant (newContext r) 1))
      (processMessage exEnv ''cheap lunch for 2 in Gemmayze''
         (initializeConversation exEnv emptyProfile) emptyProfile)
     = Some (RECOMMEND, Some exShack)
   \<and> bookingAvailable exShack = False
   \<and> discountCode exShack = Some ''WALKIN10''
   \<and> map_option (\<lambda>r. map_option
          (\<lambda>r2. (state (newContext r2), map_option restaurantId (bookingDraft (newContext r2)),
                  response r2 = dateQuestion, includes_str (response r2) ''WALKIN10''))
          (processMessage exEnv ''book 1'' (newContext r) emptyProfile))
      (processMessage exEnv ''cheap lunch for 2 in Gemmayze''
         (initializeConversation exEnv emptyProfile) emptyProfile)
     = Some (Some (BOOKING_COLLECT, Some (Some ''r2''), True, False))
   \<and> map_option (\<lambda>r. map_option
          (\<lambda>r2. (state (newContext r2), includes_str (response r2) ''WALKIN10''))
          (processMessage exEnv ''1'' (newContext r) emptyProfile))
      (processMessage exEnv ''cheap lunch for 2 in Gemmayze''
         (initializeConversation exEnv emptyProfile) emptyProfile)
     = Some (Some (RECOMMEND, False))"
  by code_simp

end
